theory Spec2Isabelle
  imports Main
begin

section \<open>Marketing meme generator: response unwrapping, persistence, export\<close>

text \<open>
  A shallow embedding of \<^verbatim>\<open>src/app.py\<close>. The program talks to three things it does
  not own: the generative service (whose replies are inputs of the model), the file
  system and the notebook / Streamlit front end (both part of an explicit \<open>world\<close>
  that every function takes and returns). Exceptions are values of \<open>py_error\<close>.
\<close>

subsection \<open>Python objects with optional attributes\<close>

text \<open>
  The source reads the service's objects in two ways: \<^verbatim>\<open>hasattr(x, 'a') and x.a\<close>, and
  \<^verbatim>\<open>x.a is None\<close>. So an attribute has three states: it does not exist on the object
  (\<open>Missing\<close>: \<^verbatim>\<open>hasattr\<close> is false and \<^verbatim>\<open>x.a\<close> raises AttributeError), it exists and
  holds \<^verbatim>\<open>None\<close> (\<open>NoneV\<close>), or it holds a value (\<open>Val\<close>). The objects of the service's
  SDK declare every field as optional with default \<^verbatim>\<open>None\<close>, so \<open>NoneV\<close> is the state an
  absent field has there. Strings and byte strings are both \<open>string\<close>; the characters
  of a text are its code points, which the model has up to 255.
\<close>

datatype 'a attr = Missing | NoneV | Val 'a

record blob =
  data :: "string attr"
  mime_type :: "string attr"

record part =
  part_text :: "string attr"
  inline_data :: "blob attr"

record content =
  parts :: "part list attr"

record candidate =
  content :: "content attr"

text \<open>
  A response and a streamed chunk are the same kind of object. \<open>response_parts\<close> is the
  attribute \<^verbatim>\<open>parts\<close> of the response itself (the "direct parts structure").
\<close>

record response =
  candidates :: "candidate list attr"
  response_parts :: "part list attr"

datatype py_error =
    TypeError
  | AttributeError
  | IndexError
  | FileNotFoundError
  | UnidentifiedImageError
  | ParserError
  | ServiceError string

subsection \<open>The marketing table and the spreadsheet\<close>

datatype column =
    Meme_template | Prompt | Company_background | Marketing_message
  | Call_to_action | Target_audience | Platform | Theme

definition names :: "column list" where
  "names = [Meme_template, Prompt, Company_background, Marketing_message,
            Call_to_action, Target_audience, Platform, Theme]"

fun column_name :: "column \<Rightarrow> string" where
  "column_name Meme_template = ''meme_template''"
| "column_name Prompt = ''prompt''"
| "column_name Company_background = ''company_background''"
| "column_name Marketing_message = ''marketing_message''"
| "column_name Call_to_action = ''call_to_action''"
| "column_name Target_audience = ''target_audience''"
| "column_name Platform = ''platform''"
| "column_name Theme = ''theme''"

text \<open>
  A cell of the data frame holds the field's text, or NaN where the line had no such
  field. (pandas also converts a column of numerals to numbers; no function of the
  program looks at that, and it is not modelled.) A row is addressed by column name,
  as \<^verbatim>\<open>row['theme']\<close> does; the frame is the list of its rows in order.
\<close>

datatype cell = Str string | NaN

type_synonym marketing_row = "column \<Rightarrow> cell"
type_synonym dataframe = "marketing_row list"

text \<open>The dictionary appended to \<^verbatim>\<open>generated_images\<close> (lines 385-396).\<close>

record artifact =
  row :: nat
  image_path :: string
  row_fields :: marketing_row

datatype xl_value = XInt nat | XCell cell | XStr string

record xl_image =
  ref :: string
  width :: nat
  height :: nat
  anchor :: string

record worksheet =
  title :: string
  cells :: "nat \<times> nat \<Rightarrow> xl_value option"
  images :: "xl_image list"

subsection \<open>The world\<close>

datatype file_content =
    Bytes string
  | CsvRecords "string list list"
  | Xlsx worksheet

text \<open>What \<^verbatim>\<open>print\<close> and \<^verbatim>\<open>display\<close> put on the console, one constructor per call site.\<close>

datatype event =
    PrintSaved string
  | PrintPrompt string
  | PrintStarting
  | PrintDot
  | PrintText string
  | PrintImageGenerated nat nat
  | PrintComplete nat
  | PrintStreamingError py_error
  | PrintImage nat nat
  | PrintCouldNotDisplay
  | DisplayMarkdown string
  | DisplayImage string

text \<open>What the Streamlit calls put on the page.\<close>

datatype ui_event =
    StError py_error
  | StSuccessData
  | StDataframe dataframe
  | StDownloadCsv "string list list"
  | StImage string
  | StRowError nat py_error
  | StSuccessMemes nat
  | StDownloadExcel worksheet

record world =
  fs :: "string \<Rightarrow> file_content option"
  out :: "event list"
  ticks :: nat
  ui :: "ui_event list"
  session_marketing_data :: "dataframe option"
  session_generated_images :: "artifact list option"

text \<open>
  The library functions the program calls, as parameters: \<^verbatim>\<open>mimetypes.guess_extension\<close>
  on a string, the text \<^verbatim>\<open>datetime.now().strftime("%Y%m%d_%H%M%S")\<close> returns at the
  n-th reading of the clock, and \<^verbatim>\<open>PIL.Image.open\<close> (the size of the decoded image, or
  \<open>None\<close> where it raises).
\<close>

record env =
  guess_extension :: "string \<Rightarrow> string option"
  now :: "nat \<Rightarrow> string"
  image_open :: "string \<Rightarrow> (nat \<times> nat) option"

definition emit :: "event list \<Rightarrow> world \<Rightarrow> world" where
  "emit evs w = w\<lparr>out := out w @ evs\<rparr>"

definition show_ui :: "ui_event list \<Rightarrow> world \<Rightarrow> world" where
  "show_ui evs w = w\<lparr>ui := ui w @ evs\<rparr>"

text \<open>Python's \<^verbatim>\<open>f"{i}"\<close> for a non-negative integer.\<close>

fun str_nat :: "nat \<Rightarrow> string" where
  "str_nat n =
     (if n < 10 then [''0123456789'' ! n]
      else str_nat (n div 10) @ [''0123456789'' ! (n mod 10)])"

declare str_nat.simps [simp del]

subsection \<open>Helper functions (lines 83-158)\<close>

definition save_binary_file :: "string \<Rightarrow> string \<Rightarrow> world \<Rightarrow> string \<times> world" where
  "save_binary_file file_name d w =
     (file_name, emit [PrintSaved file_name] (w\<lparr>fs := (fs w)(file_name \<mapsto> Bytes d)\<rparr>))"

definition process_part :: "env \<Rightarrow> part \<Rightarrow> world \<Rightarrow> world" where
  "process_part E p w =
     (let w1 = (case part_text p of
                  Val t \<Rightarrow> if t \<noteq> [] then emit [DisplayMarkdown t] w else w
                | _ \<Rightarrow> w)
      in case inline_data p of
           Val b \<Rightarrow>
             (case data b of
                Val d \<Rightarrow>
                  if d \<noteq> [] then
                    (case image_open E d of
                       Some (wd, ht) \<Rightarrow> emit [PrintImage wd ht, DisplayImage d] w1
                     | None \<Rightarrow> emit [PrintCouldNotDisplay] w1)
                  else w1
              | _ \<Rightarrow> w1)
         | _ \<Rightarrow> w1)"

text \<open>
  \<^verbatim>\<open>hasattr(part, 'inline_data') and part.inline_data\<close> and then the same for
  \<^verbatim>\<open>data\<close> (lines 137-138 and 149-150): the blob and its bytes when both tests pass.
\<close>

definition guarded_image :: "part \<Rightarrow> (blob \<times> string) option" where
  "guarded_image p =
     (case inline_data p of
        Val b \<Rightarrow> (case data b of
                    Val d \<Rightarrow> if d \<noteq> [] then Some (b, d) else None
                  | _ \<Rightarrow> None)
      | _ \<Rightarrow> None)"

text \<open>
  Lines 140-141 and 243-244: \<^verbatim>\<open>getattr(blob, 'mime_type', 'image/png')\<close> takes the
  default only where the attribute does not exist; where it holds \<^verbatim>\<open>None\<close>,
  \<^verbatim>\<open>guess_extension(None)\<close> raises AttributeError (it calls \<^verbatim>\<open>type.lower()\<close>).
  \<^verbatim>\<open>x or '.png'\<close> replaces \<^verbatim>\<open>None\<close> and the empty string.
\<close>

definition or_png :: "string option \<Rightarrow> string" where
  "or_png x = (case x of None \<Rightarrow> ''.png'' | Some e \<Rightarrow> if e = [] then ''.png'' else e)"

definition extension_of :: "env \<Rightarrow> blob \<Rightarrow> py_error + string" where
  "extension_of E b =
     (case mime_type b of
        Missing \<Rightarrow> Inr (or_png (guess_extension E ''image/png''))
      | NoneV \<Rightarrow> Inl AttributeError
      | Val m \<Rightarrow> Inr (or_png (guess_extension E m)))"

definition basic_name :: "string \<Rightarrow> string \<Rightarrow> nat \<Rightarrow> string \<Rightarrow> string" where
  "basic_name prefix timestamp i ext = prefix @ ''_'' @ timestamp @ ''_'' @ str_nat i @ ext"

text \<open>
  The loop \<^verbatim>\<open>for i, part in enumerate(parts)\<close> of lines 136-144 (and 148-156), from
  index \<open>i\<close> on. The state is the list \<^verbatim>\<open>saved_files\<close> and the world; an exception leaves
  both as they were when it was raised.
\<close>

fun save_parts ::
  "env \<Rightarrow> string \<Rightarrow> nat \<Rightarrow> part list \<Rightarrow> string list \<times> world
     \<Rightarrow> py_error option \<times> string list \<times> world" where
  "save_parts E prefix i [] s = (None, s)"
| "save_parts E prefix i (p # ps) (saved_files, w) =
     (case guarded_image p of
        None \<Rightarrow> save_parts E prefix (Suc i) ps (saved_files, w)
      | Some (b, d) \<Rightarrow>
          (let timestamp = now E (ticks w);
               w1 = w\<lparr>ticks := Suc (ticks w)\<rparr>
           in case extension_of E b of
                Inl e \<Rightarrow> (Some e, saved_files, w1)
              | Inr ext \<Rightarrow>
                  (let (filename, w2) = save_binary_file (basic_name prefix timestamp i ext) d w1
                   in save_parts E prefix (Suc i) ps (saved_files @ [filename], w2))))"

text \<open>
  The loop over \<^verbatim>\<open>response.candidates\<close> (lines 133-144). \<^verbatim>\<open>hasattr(content, 'parts')\<close>
  is true for a \<^verbatim>\<open>parts\<close> that holds \<^verbatim>\<open>None\<close>, and \<^verbatim>\<open>enumerate(None)\<close> raises TypeError.
\<close>

fun save_candidates ::
  "env \<Rightarrow> string \<Rightarrow> candidate list \<Rightarrow> string list \<times> world
     \<Rightarrow> py_error option \<times> string list \<times> world" where
  "save_candidates E prefix [] s = (None, s)"
| "save_candidates E prefix (c # cs) s =
     (case content c of
        Val ct \<Rightarrow>
          (case parts ct of
             Missing \<Rightarrow> save_candidates E prefix cs s
           | NoneV \<Rightarrow> (Some TypeError, s)
           | Val ps \<Rightarrow>
               (case save_parts E prefix 0 ps s of
                  (Some e, s') \<Rightarrow> (Some e, s')
                | (None, s') \<Rightarrow> save_candidates E prefix cs s'))
      | _ \<Rightarrow> save_candidates E prefix cs s)"

definition returned :: "py_error option \<times> string list \<times> world \<Rightarrow> (py_error + string list) \<times> world" where
  "returned r = (case r of
                   (Some e, saved_files, w) \<Rightarrow> (Inl e, w)
                 | (None, saved_files, w) \<Rightarrow> (Inr saved_files, w))"

definition extract_and_save_images ::
  "env \<Rightarrow> response option \<Rightarrow> string \<Rightarrow> world \<Rightarrow> (py_error + string list) \<times> world" where
  "extract_and_save_images E response prefix w =
     (case response of
        None \<Rightarrow> (Inr [], w)
      | Some r \<Rightarrow>
          (case candidates r of
             Val (c # cs) \<Rightarrow> returned (save_candidates E prefix (c # cs) ([], w))
           | _ \<Rightarrow>
               (case response_parts r of
                  Missing \<Rightarrow> (Inr [], w)
                | NoneV \<Rightarrow> (Inl TypeError, w)
                | Val ps \<Rightarrow> returned (save_parts E prefix 0 ps ([], w)))))"

subsection \<open>Streaming image generation (lines 204-263)\<close>

text \<open>
  What iterating \<^verbatim>\<open>client.models.generate_content_stream(...)\<close> delivers: chunks, and
  possibly an exception (of class \<^verbatim>\<open>Exception\<close>) in place of the next chunk. A stream
  whose first item is \<open>Raise\<close> is a call that fails before any chunk.
\<close>

datatype stream_item = Chunk response | Raise py_error

definition stream_name :: "string \<Rightarrow> nat \<Rightarrow> string \<Rightarrow> string" where
  "stream_name save_prefix file_index ext = save_prefix @ ''_'' @ str_nat file_index @ ext"

text \<open>
  The body of \<^verbatim>\<open>for part in chunk.candidates[0].content.parts\<close> (lines 237-256). The
  state is \<^verbatim>\<open>saved_files\<close>, \<^verbatim>\<open>file_index\<close> and the world. \<^verbatim>\<open>part.inline_data\<close> and
  \<^verbatim>\<open>part.inline_data.data\<close> are read without \<^verbatim>\<open>hasattr\<close> here. A failure to decode the
  image for display is swallowed by the inner \<^verbatim>\<open>except: pass\<close>.
\<close>

definition stream_part ::
  "env \<Rightarrow> string \<Rightarrow> part \<Rightarrow> string list \<times> nat \<times> world
     \<Rightarrow> py_error option \<times> string list \<times> nat \<times> world" where
  "stream_part E save_prefix p s =
     (case s of (saved_files, file_index, w) \<Rightarrow>
        (let w1 = (case part_text p of
                     Val t \<Rightarrow> if t \<noteq> [] then emit [PrintText (take 100 t)] w else w
                   | _ \<Rightarrow> w)
         in case inline_data p of
              Missing \<Rightarrow> (Some AttributeError, saved_files, file_index, w1)
            | NoneV \<Rightarrow> (None, saved_files, file_index, w1)
            | Val b \<Rightarrow>
                (case data b of
                   Missing \<Rightarrow> (Some AttributeError, saved_files, file_index, w1)
                 | NoneV \<Rightarrow> (None, saved_files, file_index, w1)
                 | Val d \<Rightarrow>
                     if d = [] then (None, saved_files, file_index, w1)
                     else
                       (case extension_of E b of
                          Inl e \<Rightarrow> (Some e, saved_files, file_index, w1)
                        | Inr ext \<Rightarrow>
                            (let (filename, w2) =
                                   save_binary_file (stream_name save_prefix file_index ext) d w1;
                                 w3 = (case image_open E d of
                                         Some (wd, ht) \<Rightarrow>
                                           emit [PrintImageGenerated wd ht, DisplayImage d] w2
                                       | None \<Rightarrow> w2)
                             in (None, saved_files @ [filename], Suc file_index, w3))))))"

fun stream_parts ::
  "env \<Rightarrow> string \<Rightarrow> part list \<Rightarrow> string list \<times> nat \<times> world
     \<Rightarrow> py_error option \<times> string list \<times> nat \<times> world" where
  "stream_parts E save_prefix [] s = (None, s)"
| "stream_parts E save_prefix (p # ps) s =
     (case stream_part E save_prefix p s of
        (Some e, s') \<Rightarrow> (Some e, s')
      | (None, s') \<Rightarrow> stream_parts E save_prefix ps s')"

text \<open>
  The guard of lines 231-234: \<open>Inr None\<close> is \<^verbatim>\<open>continue\<close>, \<open>Inr (Some ps)\<close> the parts to
  walk. \<^verbatim>\<open>chunk.candidates[0]\<close> on an empty list raises IndexError.
\<close>

definition chunk_parts :: "response \<Rightarrow> py_error + part list option" where
  "chunk_parts chunk =
     (case candidates chunk of
        Missing \<Rightarrow> Inl AttributeError
      | NoneV \<Rightarrow> Inr None
      | Val [] \<Rightarrow> Inl IndexError
      | Val (c # cs) \<Rightarrow>
          (case content c of
             Missing \<Rightarrow> Inl AttributeError
           | NoneV \<Rightarrow> Inr None
           | Val ct \<Rightarrow>
               (case parts ct of
                  Missing \<Rightarrow> Inl AttributeError
                | NoneV \<Rightarrow> Inr None
                | Val ps \<Rightarrow> Inr (Some ps))))"

fun stream_loop ::
  "env \<Rightarrow> string \<Rightarrow> stream_item list \<Rightarrow> string list \<times> nat \<times> world
     \<Rightarrow> py_error option \<times> string list \<times> nat \<times> world" where
  "stream_loop E save_prefix [] s = (None, s)"
| "stream_loop E save_prefix (Raise e # rest) s = (Some e, s)"
| "stream_loop E save_prefix (Chunk chunk # rest) (saved_files, file_index, w) =
     (let w1 = emit [PrintDot] w
      in case chunk_parts chunk of
           Inl e \<Rightarrow> (Some e, saved_files, file_index, w1)
         | Inr None \<Rightarrow> stream_loop E save_prefix rest (saved_files, file_index, w1)
         | Inr (Some ps) \<Rightarrow>
             (case stream_parts E save_prefix ps (saved_files, file_index, w1) of
                (Some e, s') \<Rightarrow> (Some e, s')
              | (None, s') \<Rightarrow> stream_loop E save_prefix rest s'))"

text \<open>
  \<^verbatim>\<open>generate_image_streaming(prompt, save_prefix)\<close>; \<open>stream\<close> is what the service
  delivers for this call. Both exits return \<^verbatim>\<open>saved_files\<close>.
\<close>

definition started :: "string \<Rightarrow> world \<Rightarrow> world" where
  "started prompt' w = emit [PrintPrompt (take 100 prompt'), PrintStarting] w"

definition generate_image_streaming ::
  "env \<Rightarrow> stream_item list \<Rightarrow> string \<Rightarrow> string \<Rightarrow> world \<Rightarrow> string list \<times> world" where
  "generate_image_streaming E stream prompt' save_prefix w =
     (case stream_loop E save_prefix stream ([], 0, started prompt' w) of
        (None, saved_files, file_index, w1) \<Rightarrow>
          (saved_files, emit [PrintComplete (length saved_files)] w1)
      | (Some e, saved_files, file_index, w1) \<Rightarrow>
          (saved_files, emit [PrintStreamingError e] w1))"

subsection \<open>Step 2: the marketing table (lines 309-342)\<close>

text \<open>
  \<^verbatim>\<open>str.strip()\<close>: the code points below 256 that Python counts as white space are
  9 to 13, 28 to 32, 133 and 160.
\<close>

definition is_space :: "char \<Rightarrow> bool" where
  "is_space c = (c \<in> set [CHR '' '', CHR 0x09, CHR 0x0A, CHR 0x0B, CHR 0x0C, CHR 0x0D,
                           CHR 0x1C, CHR 0x1D, CHR 0x1E, CHR 0x1F, CHR 0x85, CHR 0xA0])"

definition strip :: "string \<Rightarrow> string" where
  "strip s = rev (dropWhile is_space (rev (dropWhile is_space s)))"

text \<open>
  \<^verbatim>\<open>DataFrame.to_csv(index=False)\<close>, as the records of the file it writes: \<^verbatim>\<open>header\<close>
  is not passed and is true by default, so the first record holds the column names;
  one record per row follows, a NaN written as the empty field.
\<close>

fun render :: "cell \<Rightarrow> string" where
  "render (Str s) = s"
| "render NaN = []"

definition to_csv :: "dataframe \<Rightarrow> string list list" where
  "to_csv marketing_data =
     map column_name names # map (\<lambda>r. map (\<lambda>c. render (r c)) names) marketing_data"

text \<open>
  The body of \<^verbatim>\<open>if generate_csv_btn\<close>. \<open>reply\<close> is the outcome of the text-generation
  request: an exception, or the response's \<^verbatim>\<open>.text\<close> (which may be \<^verbatim>\<open>None\<close>, and then
  \<^verbatim>\<open>.strip()\<close> raises AttributeError). \<open>read_csv\<close> stands for the call
  \<^verbatim>\<open>pd.read_csv(StringIO(csv_content), header=None, names=[...])\<close> of line 332. The
  block does nothing else with the text: it has no check of its own on the number of
  rows or fields. Every exception ends in \<^verbatim>\<open>st.error\<close>.
\<close>

definition generate_marketing_data_csv ::
  "(string \<Rightarrow> py_error + dataframe) \<Rightarrow> py_error + string option \<Rightarrow> world \<Rightarrow> world" where
  "generate_marketing_data_csv read_csv reply w =
     (case reply of
        Inl e \<Rightarrow> show_ui [StError e] w
      | Inr None \<Rightarrow> show_ui [StError AttributeError] w
      | Inr (Some response_text) \<Rightarrow>
          (case read_csv (strip response_text) of
             Inl e \<Rightarrow> show_ui [StError e] w
           | Inr marketing_data \<Rightarrow>
               (let w1 = show_ui [StSuccessData, StDataframe marketing_data]
                           (w\<lparr>session_marketing_data := Some marketing_data\<rparr>);
                    w2 = w1\<lparr>fs := (fs w1)(''generated_marketing_data.csv'' \<mapsto>
                                         CsvRecords (to_csv marketing_data))\<rparr>
                in show_ui [StDownloadCsv (to_csv marketing_data)] w2)))"

text \<open>
  A model of that \<^verbatim>\<open>pd.read_csv\<close> call (pandas 2, C engine, default options) for plain
  text: no quote characters, no carriage returns, and no column made only of numerals
  or truth values (pandas converts such a column; the model keeps the text of every
  field). What pandas does there:
  \<^item> a line that is empty or holds only spaces and tabs is skipped;
  \<^item> a text without any other line gives the empty frame with the 8 columns (no
    exception, since the column names are given);
  \<^item> a line may have as many fields as the longer of the first line and the 8 names; a
    later line with more is a ParserError ("Expected n fields in line k, saw m");
  \<^item> a shorter line is padded with NaN at its end;
  \<^item> where the first line has more than 8 fields, the surplus leading fields are the
    index, which is not one of the 8 columns;
  \<^item> a field that is empty or one of the default NA markers is NaN;
  \<^item> there is no limit on the number of lines.
\<close>

fun split_on :: "char \<Rightarrow> string \<Rightarrow> string list" where
  "split_on c [] = [[]]"
| "split_on c (x # xs) =
     (if x = c then [] # split_on c xs
      else (case split_on c xs of
              [] \<Rightarrow> [[x]]
            | field # others \<Rightarrow> (x # field) # others))"

fun column_position :: "column \<Rightarrow> nat" where
  "column_position Meme_template = 0"
| "column_position Prompt = 1"
| "column_position Company_background = 2"
| "column_position Marketing_message = 3"
| "column_position Call_to_action = 4"
| "column_position Target_audience = 5"
| "column_position Platform = 6"
| "column_position Theme = 7"

definition blank_line :: "string \<Rightarrow> bool" where
  "blank_line l = list_all (\<lambda>c. c = CHR '' '' \<or> c = CHR 0x09) l"

definition na_values :: "string list" where
  "na_values = ['''', ''#N/A'', ''#N/A N/A'', ''#NA'', ''-1.#IND'', ''-1.#QNAN'', ''-NaN'',
                ''-nan'', ''1.#IND'', ''1.#QNAN'', ''<NA>'', ''N/A'', ''NA'', ''NULL'', ''NaN'',
                ''None'', ''n/a'', ''nan'', ''null'']"

definition field_cell :: "string list \<Rightarrow> nat \<Rightarrow> cell" where
  "field_cell record_fields i =
     (if i < length record_fields \<and> record_fields ! i \<notin> set na_values
      then Str (record_fields ! i) else NaN)"

definition read_csv_plain :: "string \<Rightarrow> py_error + dataframe" where
  "read_csv_plain csv_content =
     (let records = map (split_on CHR '','')
                      (filter (\<lambda>l. \<not> blank_line l) (split_on CHR 0x0A csv_content))
      in if records = [] then Inr []
         else
           (let expected = max 8 (length (hd records))
            in if list_ex (\<lambda>r. expected < length r) records then Inl ParserError
               else Inr (map (\<lambda>r c. field_cell r (expected - 8 + column_position c)) records)))"

subsection \<open>Step 3: memes for the selected rows (lines 362-402)\<close>

text \<open>
  \<open>meme_prompt\<close> stands for the f-string of lines 366-379, the prompt of a row; its
  wording plays no part in what the program does with the reply. Each selected row
  index comes with the stream the service delivers for that row's request.
  \<^verbatim>\<open>marketing_data.iloc[idx]\<close> raises IndexError out of range, outside the \<^verbatim>\<open>try\<close>.
  \<^verbatim>\<open>st.image(Image.open(saved_files[0]))\<close> comes after the append; its failure is
  caught and shown, and the artifact stays in the list.
\<close>

definition st_image :: "env \<Rightarrow> nat \<Rightarrow> string \<Rightarrow> world \<Rightarrow> world" where
  "st_image E idx path w =
     (case fs w path of
        None \<Rightarrow> show_ui [StRowError idx FileNotFoundError] w
      | Some (Bytes d) \<Rightarrow>
          (case image_open E d of
             None \<Rightarrow> show_ui [StRowError idx UnidentifiedImageError] w
           | Some size_of \<Rightarrow> show_ui [StImage path] w)
      | Some other \<Rightarrow> show_ui [StRowError idx UnidentifiedImageError] w)"

fun generate_memes ::
  "env \<Rightarrow> (marketing_row \<Rightarrow> string) \<Rightarrow> dataframe \<Rightarrow> (nat \<times> stream_item list) list
     \<Rightarrow> artifact list \<times> world \<Rightarrow> py_error option \<times> artifact list \<times> world" where
  "generate_memes E meme_prompt marketing_data [] s = (None, s)"
| "generate_memes E meme_prompt marketing_data ((idx, stream) # rest) (generated_images, w) =
     (if length marketing_data \<le> idx then (Some IndexError, generated_images, w)
      else
        (let r = marketing_data ! idx;
             (saved_files, w1) =
               generate_image_streaming E stream (meme_prompt r) (''meme_'' @ str_nat idx) w
         in case saved_files of
              [] \<Rightarrow> generate_memes E meme_prompt marketing_data rest (generated_images, w1)
            | first # others \<Rightarrow>
                generate_memes E meme_prompt marketing_data rest
                  (generated_images @ [\<lparr>row = idx, image_path = first, row_fields = r\<rparr>],
                   st_image E idx first w1)))"

definition generate_memes_for_selected ::
  "env \<Rightarrow> (marketing_row \<Rightarrow> string) \<Rightarrow> dataframe \<Rightarrow> (nat \<times> stream_item list) list
     \<Rightarrow> world \<Rightarrow> py_error option \<times> world" where
  "generate_memes_for_selected E meme_prompt marketing_data selected w =
     (if selected = [] then (None, w)
      else
        (case generate_memes E meme_prompt marketing_data selected ([], w) of
           (Some e, generated_images, w1) \<Rightarrow> (Some e, w1)
         | (None, generated_images, w1) \<Rightarrow>
             (None, show_ui [StSuccessMemes (length generated_images)]
                      (w1\<lparr>session_generated_images := Some generated_images\<rparr>))))"

subsection \<open>Export to Excel (lines 405-436)\<close>

definition headers :: "string list" where
  "headers = [''Row'', ''Meme Template'', ''Prompt'', ''Company Background'',
              ''Marketing Message'', ''Call to Action'', ''Target Audience'', ''Platform'',
              ''Theme'', ''Image'']"

definition set_cell :: "nat \<Rightarrow> nat \<Rightarrow> xl_value \<Rightarrow> worksheet \<Rightarrow> worksheet" where
  "set_cell r c v ws = ws\<lparr>cells := (cells ws)((r, c) \<mapsto> v)\<rparr>"

text \<open>\<^verbatim>\<open>for col, header in enumerate(headers, 1)\<close>.\<close>

fun write_headers :: "nat \<Rightarrow> string list \<Rightarrow> worksheet \<Rightarrow> worksheet" where
  "write_headers col [] ws = ws"
| "write_headers col (header # rest) ws =
     write_headers (Suc col) rest (set_cell 1 col (XStr header) ws)"

text \<open>
  \<^verbatim>\<open>XLImage(path)\<close> opens the file with PIL: FileNotFoundError where there is no such
  file, UnidentifiedImageError where it is not an image. The image starts with its own
  size and the anchor A1.
\<close>

definition XLImage :: "env \<Rightarrow> world \<Rightarrow> string \<Rightarrow> py_error + xl_image" where
  "XLImage E w path =
     (case fs w path of
        None \<Rightarrow> Inl FileNotFoundError
      | Some (Bytes d) \<Rightarrow>
          (case image_open E d of
             None \<Rightarrow> Inl UnidentifiedImageError
           | Some (wd, ht) \<Rightarrow> Inr \<lparr>ref = path, width = wd, height = ht, anchor = ''A1''\<rparr>)
      | Some other \<Rightarrow> Inl UnidentifiedImageError)"

text \<open>\<^verbatim>\<open>for row_idx, item in enumerate(generated_images, 2)\<close>, from \<open>row_idx\<close> on.\<close>

fun write_rows ::
  "env \<Rightarrow> world \<Rightarrow> nat \<Rightarrow> artifact list \<Rightarrow> worksheet \<Rightarrow> py_error + worksheet" where
  "write_rows E w row_idx [] ws = Inr ws"
| "write_rows E w row_idx (item # rest) ws =
     (let ws9 =
            set_cell row_idx 9 (XCell (row_fields item Theme))
           (set_cell row_idx 8 (XCell (row_fields item Platform))
           (set_cell row_idx 7 (XCell (row_fields item Target_audience))
           (set_cell row_idx 6 (XCell (row_fields item Call_to_action))
           (set_cell row_idx 5 (XCell (row_fields item Marketing_message))
           (set_cell row_idx 4 (XCell (row_fields item Company_background))
           (set_cell row_idx 3 (XCell (row_fields item Prompt))
           (set_cell row_idx 2 (XCell (row_fields item Meme_template))
           (set_cell row_idx 1 (XInt (row item)) ws))))))))
      in case XLImage E w (image_path item) of
           Inl e \<Rightarrow> Inl e
         | Inr img \<Rightarrow>
             write_rows E w (Suc row_idx) rest
               (ws9\<lparr>images := images ws9 @
                  [img\<lparr>width := 200, height := 200, anchor := ''J'' @ str_nat row_idx\<rparr>]\<rparr>))"

definition export_sheet :: "env \<Rightarrow> world \<Rightarrow> artifact list \<Rightarrow> py_error + worksheet" where
  "export_sheet E w generated_images =
     write_rows E w 2 generated_images
       (write_headers 1 headers \<lparr>title = ''Memes'', cells = Map.empty, images = []\<rparr>)"

definition export_to_excel :: "env \<Rightarrow> world \<Rightarrow> py_error option \<times> world" where
  "export_to_excel E w =
     (case session_generated_images w of
        None \<Rightarrow> (None, w)
      | Some generated_images \<Rightarrow>
          (case export_sheet E w generated_images of
             Inl e \<Rightarrow> (Some e, w)
           | Inr ws \<Rightarrow>
               (None, show_ui [StDownloadExcel ws]
                        (w\<lparr>fs := (fs w)(''memes_export.xlsx'' \<mapsto> Xlsx ws)\<rparr>))))"

text \<open>Reading the sheet back: the cells of row \<open>r\<close> in columns 1 to \<open>n\<close>.\<close>

definition sheet_row :: "worksheet \<Rightarrow> nat \<Rightarrow> nat \<Rightarrow> xl_value option list" where
  "sheet_row ws r n = map (\<lambda>c. cells ws (r, c)) [1..<Suc n]"

text \<open>The nine values the loop writes into a data row, in column order.\<close>

definition row_cells :: "artifact \<Rightarrow> xl_value list" where
  "row_cells item = XInt (row item) # map (\<lambda>c. XCell (row_fields item c)) names"

subsection \<open>The naming policies, as the specification words them\<close>

text \<open>
  The specification names an image by its place: in streaming mode by its rank among
  the images persisted by the call, in basic mode by the position of its part in the
  parts sequence. To say which images a call persists, each step of a walk is given
  its outcome: an exception (\<open>Inl\<close>), nothing to save (\<open>Inr None\<close>), or an image to
  save (\<open>Inr (Some x)\<close>). A walk ends at its first exception: \<open>persisted\<close> lists the
  images of the outcomes before it, \<open>first_error\<close> is that exception.
\<close>

definition persisted :: "(py_error + 'a option) list \<Rightarrow> 'a list" where
  "persisted outcomes =
     List.map_filter (\<lambda>oc. case oc of Inl e \<Rightarrow> None | Inr x \<Rightarrow> x)
       (takeWhile (\<lambda>oc. \<not> isl oc) outcomes)"

definition first_error :: "(py_error + 'a) list \<Rightarrow> py_error option" where
  "first_error outcomes =
     (case dropWhile (\<lambda>oc. \<not> isl oc) outcomes of
        Inl e # rest \<Rightarrow> Some e
      | _ \<Rightarrow> None)"







text \<open>The names of basic mode for a list of images, the first saved at clock reading \<open>t\<close>.\<close>

definition basic_names :: "env \<Rightarrow> string \<Rightarrow> nat \<Rightarrow> (nat \<times> string) list \<Rightarrow> string list" where
  "basic_names E prefix t saves =
     map (\<lambda>(t, (i, ext)). basic_name prefix (now E t) i ext) (enumerate t saves)"

subsection \<open>Concrete inputs\<close>

definition initial_world :: world where
  "initial_world =
     \<lparr>fs = Map.empty, out = [], ticks = 0, ui = [],
      session_marketing_data = None, session_generated_images = None\<rparr>"

text \<open>
  An environment for evaluating the functions: the two entries of Python's mime table
  that the examples use, a clock that stands still, and a decoder that accepts every
  non-empty byte string as a 512 by 512 image.
\<close>

definition example_env :: env where
  "example_env =
     \<lparr>guess_extension =
        (\<lambda>m. if m = ''image/png'' then Some ''.png''
             else if m = ''image/jpeg'' then Some ''.jpg'' else None),
      now = (\<lambda>n. ''20250101_120000''),
      image_open = (\<lambda>d. if d = [] then None else Some (512, 512))\<rparr>"

definition image_part :: "string attr \<Rightarrow> string \<Rightarrow> string attr \<Rightarrow> part" where
  "image_part t d m = \<lparr>part_text = t, inline_data = Val \<lparr>data = Val d, mime_type = m\<rparr>\<rparr>"

definition text_part :: "string \<Rightarrow> part" where
  "text_part t = \<lparr>part_text = Val t, inline_data = NoneV\<rparr>"

definition chunk_of :: "part list \<Rightarrow> response" where
  "chunk_of ps =
     \<lparr>candidates = Val [\<lparr>content = Val \<lparr>parts = Val ps\<rparr>\<rparr>], response_parts = Missing\<rparr>"

text \<open>
  A stream of three chunks: a text part; a chunk without candidates; a jpeg image, a
  text part and a captioned image whose blob has no \<^verbatim>\<open>mime_type\<close> attribute.
\<close>

definition example_stream :: "stream_item list" where
  "example_stream =
     [Chunk (chunk_of [text_part ''hello'']),
      Chunk \<lparr>candidates = NoneV, response_parts = Missing\<rparr>,
      Chunk (chunk_of [image_part NoneV ''abc'' (Val ''image/jpeg''), text_part ''x'',
                       image_part (Val ''caption'') ''def'' Missing])]"

text \<open>The result of a streaming loop without its world (used to compare two runs).\<close>

definition forget ::
  "py_error option \<times> string list \<times> nat \<times> world \<Rightarrow> py_error option \<times> string list \<times> nat" where
  "forget r = (case r of (e, saved_files, file_index, w) \<Rightarrow> (e, saved_files, file_index))"

fun is_StError :: "ui_event \<Rightarrow> bool" where
  "is_StError (StError e) = True"
| "is_StError other = False"

text \<open>Nine lines of eight fields each, as the text model might return them.\<close>

definition nine_rows :: string where
  "nine_rows = concat (replicate 9 (''a,b,c,d,e,f,g,h'' @ [CHR 0x0A]))"

text \<open>
  A table of three rows; three artifacts, generated for its rows 0, 2 and 1 in that
  order; and a world that holds their files.
\<close>

definition example_frame :: dataframe where
  "example_frame = [\<lambda>c. Str ''first'', \<lambda>c. Str ''second'', \<lambda>c. NaN]"

definition example_artifacts :: "artifact list" where
  "example_artifacts =
     [\<lparr>row = 0, image_path = ''meme_0_0.png'', row_fields = (\<lambda>c. Str ''first'')\<rparr>,
      \<lparr>row = 2, image_path = ''meme_2_0.jpg'', row_fields = (\<lambda>c. NaN)\<rparr>,
      \<lparr>row = 1, image_path = ''meme_1_0.png'', row_fields = (\<lambda>c. Str ''second'')\<rparr>]"

definition export_world :: world where
  "export_world =
     initial_world
       \<lparr>fs := [''meme_0_0.png'' \<mapsto> Bytes ''abc'', ''meme_2_0.jpg'' \<mapsto> Bytes ''def'',
               ''meme_1_0.png'' \<mapsto> Bytes ''ghi''],
        session_generated_images := Some example_artifacts\<rparr>"



section \<open>Properties\<close>

subsection \<open>The loops: what they keep and what they append\<close>

lemma str_nat_digit [simp]: "n < 10 \<Longrightarrow> str_nat n = [''0123456789'' ! n]"
  by (simp add: str_nat.simps)

lemma fs_emit [simp]: "fs (emit evs w) = fs w"
  by (simp add: emit_def)

lemma stream_part_inv:
  assumes "stream_part E pfx p (sv, k, w) = (r, sv', k', w')"
  shows "(k = length sv \<longrightarrow> k' = length sv') \<and> dom (fs w) \<subseteq> dom (fs w')
         \<and> (set sv \<subseteq> dom (fs w) \<longrightarrow> set sv' \<subseteq> dom (fs w'))"
  using assms
  by (auto simp: stream_part_def save_binary_file_def Let_def
           split: attr.splits if_splits sum.splits option.splits prod.splits)

lemma stream_parts_inv:
  "stream_parts E pfx ps (sv, k, w) = (r, sv', k', w') \<Longrightarrow>
   (k = length sv \<longrightarrow> k' = length sv') \<and> dom (fs w) \<subseteq> dom (fs w')
         \<and> (set sv \<subseteq> dom (fs w) \<longrightarrow> set sv' \<subseteq> dom (fs w'))"
proof (induction ps arbitrary: sv k w)
  case Nil
  then show ?case by simp
next
  case (Cons p ps)
  obtain r1 sv1 k1 w1 where p1: "stream_part E pfx p (sv, k, w) = (r1, sv1, k1, w1)"
    by (metis prod_cases4)
  note i1 = stream_part_inv[OF p1]
  show ?case
  proof (cases r1)
    case None
    with Cons.prems p1 have "stream_parts E pfx ps (sv1, k1, w1) = (r, sv', k', w')" by simp
    from Cons.IH[OF this] i1 show ?thesis by blast
  next
    case (Some e)
    with Cons.prems p1 have "sv' = sv1" "k' = k1" "w' = w1" by simp_all
    with i1 show ?thesis by blast
  qed
qed

lemma stream_loop_inv:
  "stream_loop E pfx items (sv, k, w) = (r, sv', k', w') \<Longrightarrow>
   (k = length sv \<longrightarrow> k' = length sv') \<and> dom (fs w) \<subseteq> dom (fs w')
         \<and> (set sv \<subseteq> dom (fs w) \<longrightarrow> set sv' \<subseteq> dom (fs w'))"
proof (induction items arbitrary: sv k w)
  case Nil
  then show ?case by simp
next
  case (Cons it items)
  show ?case
  proof (cases it)
    case (Raise e)
    with Cons.prems show ?thesis by simp
  next
    case (Chunk c)
    show ?thesis
    proof (cases "chunk_parts c")
      case (Inl e)
      with Cons.prems Chunk show ?thesis by (auto simp: Let_def)
    next
      case (Inr opt)
      show ?thesis
      proof (cases opt)
        case None
        with Cons.prems Chunk Inr
        have "stream_loop E pfx items (sv, k, emit [PrintDot] w) = (r, sv', k', w')"
          by (simp add: Let_def)
        from Cons.IH[OF this, unfolded fs_emit] show ?thesis by blast
      next
        case (Some ps)
        obtain r1 sv1 k1 w1 where
          p1: "stream_parts E pfx ps (sv, k, emit [PrintDot] w) = (r1, sv1, k1, w1)"
          by (metis prod_cases4)
        note i1 = stream_parts_inv[OF p1, unfolded fs_emit]
        show ?thesis
        proof (cases r1)
          case None
          with Cons.prems Chunk Inr Some p1
          have "stream_loop E pfx items (sv1, k1, w1) = (r, sv', k', w')"
            by (simp add: Let_def)
          from Cons.IH[OF this] i1 show ?thesis by blast
        next
          case (Some e)
          with Cons.prems Chunk Inr \<open>opt = Some ps\<close> p1
          have "sv' = sv1" "k' = k1" "w' = w1" by (simp_all add: Let_def)
          with i1 show ?thesis by blast
        qed
      qed
    qed
  qed
qed

lemma stream_loop_append_Raise:
  "stream_loop E pfx items s = (None, s') \<Longrightarrow>
   stream_loop E pfx (items @ Raise e # rest) s = (Some e, s')"
proof (induction items arbitrary: s)
  case Nil
  then show ?case by simp
next
  case (Cons it items)
  obtain sv k w where s: "s = (sv, k, w)" by (metis prod_cases3)
  show ?case
  proof (cases it)
    case (Raise e')
    with Cons.prems show ?thesis by simp
  next
    case (Chunk c)
    with Cons.prems Cons.IH s show ?thesis
      by (auto simp: Let_def split: sum.splits option.splits prod.splits)
  qed
qed

lemma forget_simp [simp]: "forget (e, sv, k, w) = (e, sv, k)"
  by (simp add: forget_def)

lemma persisted_simps [simp]:
  "persisted [] = []"
  "persisted (Inl e # os) = []"
  "persisted (Inr None # os) = persisted os"
  "persisted (Inr (Some x) # os) = x # persisted os"
  by (simp_all add: persisted_def)

lemma first_error_simps [simp]:
  "first_error [] = None"
  "first_error (Inl e # os) = Some e"
  "first_error (Inr x # os) = first_error os"
  by (simp_all add: first_error_def)








lemma basic_names_Nil [simp]: "basic_names E pfx t [] = []"
  by (simp add: basic_names_def)




subsection \<open>C1: a response without parts\<close>

text \<open>
  Where no response is given, or the candidates are missing, \<^verbatim>\<open>None\<close> or empty and there
  is no direct \<^verbatim>\<open>parts\<close> attribute, or no candidate has a content with a \<^verbatim>\<open>parts\<close>
  attribute that holds parts, the function returns the empty list and touches nothing.
\<close>

lemma save_candidates_without_parts:
  "list_all (\<lambda>c. case content c of
                     Val ct \<Rightarrow> parts ct = Missing \<or> parts ct = Val []
                   | _ \<Rightarrow> True) cs
   \<Longrightarrow> save_candidates E prefix cs s = (None, s)"
  by (induction cs) (auto split: attr.splits)

lemma extract_without_structure:
  assumes "response = None
           \<or> (\<exists>r. response = Some r
                  \<and> (candidates r = Missing \<or> candidates r = NoneV \<or> candidates r = Val [])
                  \<and> (response_parts r = Missing \<or> response_parts r = Val []))
           \<or> (\<exists>r cs. response = Some r \<and> candidates r = Val cs \<and> cs \<noteq> []
                  \<and> list_all (\<lambda>c. case content c of
                                      Val ct \<Rightarrow> parts ct = Missing \<or> parts ct = Val []
                                    | _ \<Rightarrow> True) cs)"
  shows "extract_and_save_images E response prefix w = (Inr [], w)"
  using assms
  by (auto simp: extract_and_save_images_def returned_def save_candidates_without_parts
           split: attr.splits list.splits option.splits)

text \<open>
  C1 says that \<^verbatim>\<open>extract_and_save_images\<close> returns an empty list and never raises when
  the candidates/parts structure is absent at any level, a content without parts
  included. The function does so where the attribute \<^verbatim>\<open>parts\<close> does not exist. Where it
  exists and holds \<^verbatim>\<open>None\<close> (the SDK's content without parts), \<^verbatim>\<open>hasattr\<close> is true and
  \<^verbatim>\<open>enumerate(None)\<close> raises TypeError: the theorem evaluates the function there. The
  streaming path tests \<^verbatim>\<open>parts is None\<close> (line 233); this path does not.
\<close>

theorem extract_raises_on_content_with_parts_None:
  "extract_and_save_images E
     (Some \<lparr>candidates = Val [\<lparr>content = Val \<lparr>parts = NoneV\<rparr>\<rparr>], response_parts = Missing\<rparr>)
     prefix w = (Inl TypeError, w)"
  by (simp add: extract_and_save_images_def returned_def)

subsection \<open>C3: an exception of the service in mid-stream\<close>

text \<open>
  C3: if the streaming call raises after the items before it were consumed without an
  exception and K images were persisted, \<^verbatim>\<open>generate_image_streaming\<close> returns the
  accumulator with exactly those K paths (it prints the error and propagates nothing),
  and every returned path is a file of the file system it leaves.
\<close>

theorem streaming_exception_returns_accumulator:
  assumes "stream_loop E save_prefix items ([], 0, started prompt' w) = (None, saved_files, k, w1)"
  shows "generate_image_streaming E (items @ Raise e # rest) prompt' save_prefix w
           = (saved_files, emit [PrintStreamingError e] w1)
         \<and> length saved_files = k
         \<and> (\<forall>f \<in> set saved_files. f \<in> dom (fs (emit [PrintStreamingError e] w1)))"
proof -
  from stream_loop_append_Raise[OF assms]
  have "stream_loop E save_prefix (items @ Raise e # rest) ([], 0, started prompt' w)
          = (Some e, saved_files, k, w1)" .
  then have 1: "generate_image_streaming E (items @ Raise e # rest) prompt' save_prefix w
           = (saved_files, emit [PrintStreamingError e] w1)"
    by (simp add: generate_image_streaming_def)
  from stream_loop_inv[OF assms] have "length saved_files = k" "set saved_files \<subseteq> dom (fs w1)"
    by simp_all
  with 1 show ?thesis by auto
qed

theorem streaming_exception_returns_accumulator_witness:
  "fst (generate_image_streaming example_env
          (example_stream @ Raise (ServiceError ''connection reset'') # [Chunk (chunk_of [])])
          ''p'' ''stream'' initial_world) = [''stream_0.jpg'', ''stream_1.png'']
   \<and> ''stream_0.jpg'' \<in> dom (fs (snd (generate_image_streaming example_env
          (example_stream @ Raise (ServiceError ''connection reset'') # [Chunk (chunk_of [])])
          ''p'' ''stream'' initial_world)))"
proof -
  obtain w1 where h:
    "stream_loop example_env ''stream'' example_stream ([], 0, started ''p'' initial_world)
       = (None, [''stream_0.jpg'', ''stream_1.png''], 2, w1)"
    by (simp add: example_stream_def chunk_parts_def chunk_of_def stream_part_def
          text_part_def image_part_def extension_of_def example_env_def or_png_def
          save_binary_file_def stream_name_def Let_def)
  from streaming_exception_returns_accumulator[OF h,
         of "ServiceError ''connection reset''" "[Chunk (chunk_of [])]"]
  show ?thesis by simp
qed

subsection \<open>C4: the two naming policies\<close>



subsection \<open>C5: a part with text and an image\<close>

text \<open>
  What holds: a part with non-empty text and non-empty inline image data whose blob's
  \<^verbatim>\<open>mime_type\<close> is a string or does not exist gives both results, the text first. In the
  streaming loop the text is printed and then the image is saved, appended and
  counted; in \<^verbatim>\<open>process_part\<close> the text is displayed and then
  the image branch runs (the image is displayed when it decodes, and a warning is
  printed when it does not).
\<close>

theorem text_and_image_both_emitted:
  assumes "part_text p = Val t" and "t \<noteq> []"
      and "inline_data p = Val b" and "data b = Val d" and "d \<noteq> []"
      and "mime_type b \<noteq> NoneV"
  shows "(\<exists>ext w'. stream_part E save_prefix p (saved_files, file_index, w)
                     = (None, saved_files @ [stream_name save_prefix file_index ext],
                        Suc file_index, w')
                 \<and> fs w' = (fs w)(stream_name save_prefix file_index ext \<mapsto> Bytes d)
                 \<and> out w' = out w @ [PrintText (take 100 t),
                                      PrintSaved (stream_name save_prefix file_index ext)]
                               @ (case image_open E d of
                                    Some (wd, ht) \<Rightarrow> [PrintImageGenerated wd ht, DisplayImage d]
                                  | None \<Rightarrow> []))
         \<and> out (process_part E p w)
             = out w @ [DisplayMarkdown t]
                 @ (case image_open E d of
                      Some (wd, ht) \<Rightarrow> [PrintImage wd ht, DisplayImage d]
                    | None \<Rightarrow> [PrintCouldNotDisplay])"
proof -
  from assms(6) obtain ext where ext: "extension_of E b = Inr ext"
    by (cases "mime_type b") (simp_all add: extension_of_def)
  have 1: "out (process_part E p w)
             = out w @ [DisplayMarkdown t]
                 @ (case image_open E d of
                      Some (wd, ht) \<Rightarrow> [PrintImage wd ht, DisplayImage d]
                    | None \<Rightarrow> [PrintCouldNotDisplay])"
    using assms by (simp add: process_part_def emit_def split: option.splits)
  let ?w' = "snd (snd (snd (stream_part E save_prefix p (saved_files, file_index, w))))"
  have 2: "stream_part E save_prefix p (saved_files, file_index, w)
                     = (None, saved_files @ [stream_name save_prefix file_index ext],
                        Suc file_index, ?w')"
    using assms ext by (simp add: stream_part_def save_binary_file_def Let_def)
  have 3: "fs ?w' = (fs w)(stream_name save_prefix file_index ext \<mapsto> Bytes d)"
    using assms ext
    by (simp add: stream_part_def save_binary_file_def Let_def emit_def split: option.splits)
  have 4: "out ?w' = out w @ [PrintText (take 100 t),
                                      PrintSaved (stream_name save_prefix file_index ext)]
                               @ (case image_open E d of
                                    Some (wd, ht) \<Rightarrow> [PrintImageGenerated wd ht, DisplayImage d]
                                  | None \<Rightarrow> [])"
    using assms ext
    by (simp add: stream_part_def save_binary_file_def Let_def emit_def split: option.splits)
  from 1 2 3 4 show ?thesis by blast
qed

theorem text_and_image_both_emitted_witness:
  "out (process_part example_env (image_part (Val ''hello'') ''abc'' (Val ''image/png''))
          initial_world)
     = [DisplayMarkdown ''hello'', PrintImage 512 512, DisplayImage ''abc'']
   \<and> (\<exists>ext w'. stream_part example_env ''stream''
                   (image_part (Val ''hello'') ''abc'' (Val ''image/png''))
                   ([], 0, initial_world)
                 = (None, [stream_name ''stream'' 0 ext], Suc 0, w')
             \<and> out w' = [PrintText ''hello'', PrintSaved (stream_name ''stream'' 0 ext),
                         PrintImageGenerated 512 512, DisplayImage ''abc''])"
proof -
  let ?p = "image_part (Val ''hello'') ''abc'' (Val ''image/png'')"
  have h: "part_text ?p = Val ''hello''" "''hello'' \<noteq> []"
    "inline_data ?p = Val \<lparr>data = Val ''abc'', mime_type = Val ''image/png''\<rparr>"
    "data \<lparr>data = Val ''abc'', mime_type = Val ''image/png''\<rparr> = Val ''abc''" "''abc'' \<noteq> []"
    "mime_type \<lparr>data = Val ''abc'', mime_type = Val ''image/png''\<rparr> \<noteq> NoneV"
    by (simp_all add: image_part_def)
  note t = text_and_image_both_emitted[OF h, of example_env "''stream''" "[]" 0 initial_world]
  from t have 1: "out (process_part example_env ?p initial_world)
     = [DisplayMarkdown ''hello'', PrintImage 512 512, DisplayImage ''abc'']"
    by (simp add: initial_world_def example_env_def)
  from t obtain ext w' where
    2: "stream_part example_env ''stream'' ?p ([], 0, initial_world)
          = (None, [] @ [stream_name ''stream'' 0 ext], Suc 0, w')"
    and 3: "out w' = out initial_world
              @ [PrintText (take 100 ''hello''), PrintSaved (stream_name ''stream'' 0 ext)]
              @ (case image_open example_env ''abc'' of
                   Some (wd, ht) \<Rightarrow> [PrintImageGenerated wd ht, DisplayImage ''abc'']
                 | None \<Rightarrow> [])"
    by blast
  from 3 have 4: "out w' = [PrintText ''hello'', PrintSaved (stream_name ''stream'' 0 ext),
                         PrintImageGenerated 512 512, DisplayImage ''abc'']"
    by (simp add: initial_world_def example_env_def)
  from 1 2 4 show ?thesis by auto
qed

text \<open>
  C5 says that every part with non-empty text and non-empty inline image data gives
  both a text result and an image result. In the streaming loop this fails for a blob
  whose \<^verbatim>\<open>mime_type\<close> is \<^verbatim>\<open>None\<close>: the text is printed, then
  \<^verbatim>\<open>mimetypes.guess_extension(None)\<close> raises AttributeError, no file is saved and the
  call ends with an empty list. The theorem evaluates the loop body and the call on
  such a part with the text "hello".
\<close>

theorem text_printed_but_image_lost_when_mime_type_None:
  "stream_part E save_prefix (image_part (Val ''hello'') ''abc'' NoneV)
     (saved_files, file_index, w)
     = (Some AttributeError, saved_files, file_index, emit [PrintText ''hello''] w)
   \<and> generate_image_streaming E
       [Chunk (chunk_of [image_part (Val ''hello'') ''abc'' NoneV])] prompt' save_prefix w
     = ([], emit [PrintStreamingError AttributeError]
              (emit [PrintText ''hello''] (emit [PrintDot] (started prompt' w))))"
  by (simp add: generate_image_streaming_def chunk_parts_def chunk_of_def image_part_def
        stream_part_def extension_of_def Let_def)

subsection \<open>C7: a chunk whose candidates list is empty\<close>

text \<open>
  A chunk whose \<^verbatim>\<open>candidates\<close>, \<^verbatim>\<open>content\<close> or \<^verbatim>\<open>parts\<close> holds \<^verbatim>\<open>None\<close> is skipped.
\<close>

lemma chunk_skipped:
  "chunk_parts chunk = Inr None \<Longrightarrow>
   stream_loop E save_prefix (Chunk chunk # rest) (saved_files, file_index, w)
     = stream_loop E save_prefix rest (saved_files, file_index, emit [PrintDot] w)"
  by (simp add: Let_def)

text \<open>
  A stream none of whose chunks has a non-empty parts list returns the empty list and
  writes no file (also where a chunk raises).
\<close>

lemma stream_without_parts_state:
  "list_all (\<lambda>item. case item of
                        Raise e \<Rightarrow> True
                      | Chunk chunk \<Rightarrow> chunk_parts chunk \<noteq> Inr None
                                      \<longrightarrow> (\<forall>ps. chunk_parts chunk = Inr (Some ps) \<longrightarrow> ps = [])) items
   \<Longrightarrow> \<exists>r w'. stream_loop E save_prefix items (saved_files, file_index, w)
                  = (r, saved_files, file_index, w') \<and> fs w' = fs w"
proof (induction items arbitrary: w)
  case Nil
  then show ?case by simp
next
  case (Cons item items)
  show ?case
  proof (cases item)
    case (Raise e)
    then show ?thesis by simp
  next
    case (Chunk c)
    from Cons.prems have rest: "list_all (\<lambda>item. case item of
                        Raise e \<Rightarrow> True
                      | Chunk chunk \<Rightarrow> chunk_parts chunk \<noteq> Inr None
                                      \<longrightarrow> (\<forall>ps. chunk_parts chunk = Inr (Some ps) \<longrightarrow> ps = [])) items"
      by simp
    from Cons.IH[OF rest, of "emit [PrintDot] w"] obtain r w' where
      ih: "stream_loop E save_prefix items (saved_files, file_index, emit [PrintDot] w)
             = (r, saved_files, file_index, w')" "fs w' = fs w"
      by auto
    show ?thesis
    proof (cases "chunk_parts c")
      case (Inl e)
      with Chunk show ?thesis by (simp add: Let_def)
    next
      case (Inr opt)
      show ?thesis
      proof (cases opt)
        case None
        with Chunk Inr ih show ?thesis by (simp add: Let_def)
      next
        case (Some ps)
        with Cons.prems Chunk Inr have "ps = []" by simp
        with Chunk Inr Some ih show ?thesis by (simp add: Let_def)
      qed
    qed
  qed
qed

lemma stream_without_parts:
  assumes "list_all (\<lambda>item. case item of
                        Raise e \<Rightarrow> True
                      | Chunk chunk \<Rightarrow> chunk_parts chunk \<noteq> Inr None
                                      \<longrightarrow> (\<forall>ps. chunk_parts chunk = Inr (Some ps) \<longrightarrow> ps = [])) items"
  shows "fst (generate_image_streaming E items prompt' save_prefix w) = []
         \<and> fs (snd (generate_image_streaming E items prompt' save_prefix w)) = fs w"
proof -
  from stream_without_parts_state[OF assms, of E save_prefix "[]" 0 "started prompt' w"]
  obtain r w' where "stream_loop E save_prefix items ([], 0, started prompt' w) = (r, [], 0, w')"
    "fs w' = fs w" by (auto simp: started_def)
  then show ?thesis by (cases r) (simp_all add: generate_image_streaming_def)
qed

text \<open>
  C7 says that a chunk whose candidates list exists but is empty is skipped as a
  no-op. Line 232 reads \<^verbatim>\<open>chunk.candidates[0]\<close> after testing only
  \<^verbatim>\<open>chunk.candidates is None\<close>: on the empty list it raises IndexError, the outer
  \<^verbatim>\<open>except\<close> ends the call, and the chunks that follow are never read. The theorem
  evaluates the function on such a chunk followed by a chunk with one image: nothing
  is returned and nothing written, while the second chunk alone gives one file.
\<close>

theorem empty_candidates_chunk_ends_the_stream:
  "generate_image_streaming E
     [Chunk \<lparr>candidates = Val [], response_parts = Missing\<rparr>,
      Chunk (chunk_of [image_part NoneV ''abc'' Missing])] prompt' save_prefix w
     = ([], emit [PrintStreamingError IndexError] (emit [PrintDot] (started prompt' w)))
   \<and> fst (generate_image_streaming E [Chunk (chunk_of [image_part NoneV ''abc'' Missing])]
            prompt' save_prefix w)
     = [save_prefix @ ''_0'' @ or_png (guess_extension E ''image/png'')]"
  by (simp add: generate_image_streaming_def chunk_parts_def chunk_of_def image_part_def
        stream_part_def extension_of_def save_binary_file_def stream_name_def Let_def
        split: option.splits)

subsection \<open>C8: the mime type and the extension\<close>

text \<open>
  What holds of lines 140-141 and 243-244: a blob without the attribute \<^verbatim>\<open>mime_type\<close>
  is treated as image/png, and a mime type without an extension gives .png.
\<close>

lemma extension_of_defaults:
  "mime_type b = Missing \<Longrightarrow> extension_of E b = Inr (or_png (guess_extension E ''image/png''))"
  "mime_type b = Val m \<Longrightarrow> guess_extension E m = None \<Longrightarrow> extension_of E b = Inr ''.png''"
  "mime_type b = Val m \<Longrightarrow> guess_extension E m = Some ext \<Longrightarrow> ext \<noteq> []
     \<Longrightarrow> extension_of E b = Inr ext"
  by (simp_all add: extension_of_def or_png_def)

text \<open>
  C8 says that a payload that lacks a mime type defaults to image/png. The default of
  \<^verbatim>\<open>getattr\<close> applies only where the attribute does not exist. A blob whose
  \<^verbatim>\<open>mime_type\<close> is \<^verbatim>\<open>None\<close> (how the SDK's blob lacks a mime type) passes \<^verbatim>\<open>None\<close> to
  \<^verbatim>\<open>mimetypes.guess_extension\<close>, which raises AttributeError: the streaming call ends
  with no file and an empty list, and \<^verbatim>\<open>extract_and_save_images\<close> raises.
\<close>

theorem mime_type_None_is_not_defaulted:
  "generate_image_streaming E [Chunk (chunk_of [image_part NoneV ''abc'' NoneV])]
     prompt' save_prefix w
     = ([], emit [PrintStreamingError AttributeError] (emit [PrintDot] (started prompt' w)))
   \<and> extract_and_save_images E (Some (chunk_of [image_part NoneV ''abc'' NoneV])) prefix w
     = (Inl AttributeError, w\<lparr>ticks := Suc (ticks w)\<rparr>)"
  by (simp add: generate_image_streaming_def chunk_parts_def chunk_of_def image_part_def
        stream_part_def extension_of_def extract_and_save_images_def returned_def
        guarded_image_def Let_def)

subsection \<open>C2: the parse of the marketing rows\<close>

lemma strip_nine:
  "strip nine_rows
     = ''a,b,c,d,e,f,g,h'' @ concat (replicate 8 (CHR 0x0A # ''a,b,c,d,e,f,g,h''))"
  by (simp add: nine_rows_def strip_def is_space_def numeral_eq_Suc)

lemma lines_nine:
  "split_on CHR 0x0A (strip nine_rows) = replicate 9 ''a,b,c,d,e,f,g,h''"
  by (simp add: strip_nine numeral_eq_Suc)

lemma read_nine:
  "read_csv_plain (strip nine_rows)
     = Inr (replicate 9 (\<lambda>c. field_cell [''a'',''b'',''c'',''d'',''e'',''f'',''g'',''h'']
                                  (column_position c)))"
  unfolding read_csv_plain_def lines_nine
  by (simp add: numeral_eq_Suc Let_def blank_line_def)

text \<open>
  C2 says that a text that does not hold exactly 10 rows of 8 fields, for example 9
  rows, fails to parse with a row/column count error. The block passes the text to
  \<^verbatim>\<open>pd.read_csv(..., header=None, names=[8 names])\<close> and checks nothing itself, and
  \<^verbatim>\<open>read_csv\<close> has no expected number of rows: nine lines of eight fields are stored as
  a table of nine rows, with no error shown.
\<close>

theorem nine_rows_accepted:
  "map_option (map (\<lambda>r. map r names))
     (session_marketing_data
        (generate_marketing_data_csv read_csv_plain (Inr (Some nine_rows)) initial_world))
     = Some (replicate 9 (map Str [''a'',''b'',''c'',''d'',''e'',''f'',''g'',''h'']))
   \<and> list_ex is_StError
        (ui (generate_marketing_data_csv read_csv_plain (Inr (Some nine_rows)) initial_world))
     = False"
  by (simp add: generate_marketing_data_csv_def read_nine Let_def
        initial_world_def show_ui_def names_def field_cell_def na_values_def)

text \<open>
  C2 as amended: the step has no check of its own on the number of rows or fields.
  For every text the service returns, it fails exactly when the \<^verbatim>\<open>read_csv\<close> call raises
  on the stripped text, and then the error is shown and nothing is stored or written;
  otherwise it stores, shows and writes the frame \<^verbatim>\<open>read_csv\<close> returns, whatever its
  number of rows. The theorem holds for every behaviour of \<^verbatim>\<open>read_csv\<close>.
\<close>

theorem parsing_step_follows_read_csv:
  "(read_csv (strip response_text) = Inl e \<longrightarrow>
      generate_marketing_data_csv read_csv (Inr (Some response_text)) w = show_ui [StError e] w)
   \<and> (read_csv (strip response_text) = Inr marketing_data \<longrightarrow>
        session_marketing_data
          (generate_marketing_data_csv read_csv (Inr (Some response_text)) w)
          = Some marketing_data
      \<and> ui (generate_marketing_data_csv read_csv (Inr (Some response_text)) w)
          = ui w @ [StSuccessData, StDataframe marketing_data,
                    StDownloadCsv (to_csv marketing_data)]
      \<and> fs (generate_marketing_data_csv read_csv (Inr (Some response_text)) w)
          = (fs w)(''generated_marketing_data.csv'' \<mapsto> CsvRecords (to_csv marketing_data)))"
  by (simp add: generate_marketing_data_csv_def show_ui_def Let_def)

theorem parsing_step_follows_read_csv_witness:
  "generate_marketing_data_csv read_csv_plain
     (Inr (Some (''a,b,c,d,e,f,g,h'' @ [CHR 0x0A] @ ''i,j,k,l,m,n,o,p,q''))) initial_world
     = show_ui [StError ParserError] initial_world
   \<and> map_option (map (\<lambda>r. map r names))
        (session_marketing_data
           (generate_marketing_data_csv read_csv_plain
              (Inr (Some (''a,b,c,d,e,f,g,h'' @ [CHR 0x0A] @ ''x,y''))) initial_world))
     = Some [map Str [''a'',''b'',''c'',''d'',''e'',''f'',''g'',''h''],
             [Str ''x'', Str ''y'', NaN, NaN, NaN, NaN, NaN, NaN]]
   \<and> session_marketing_data
        (generate_marketing_data_csv read_csv_plain (Inr (Some '' '')) initial_world)
     = Some []"
proof -
  let ?bad = "''a,b,c,d,e,f,g,h'' @ [CHR 0x0A] @ ''i,j,k,l,m,n,o,p,q''"
  let ?good = "''a,b,c,d,e,f,g,h'' @ [CHR 0x0A] @ ''x,y''"
  let ?df = "[\<lambda>c. field_cell [''a'',''b'',''c'',''d'',''e'',''f'',''g'',''h''] (column_position c),
              \<lambda>c. field_cell [''x'',''y''] (column_position c)]"
  have b: "read_csv_plain (strip ?bad) = Inl ParserError"
    by (simp add: strip_def is_space_def read_csv_plain_def blank_line_def Let_def)
  have g: "read_csv_plain (strip ?good) = Inr ?df"
    by (simp add: strip_def is_space_def read_csv_plain_def blank_line_def Let_def)
  have e: "read_csv_plain (strip '' '') = Inr []"
    by (simp add: strip_def is_space_def read_csv_plain_def blank_line_def Let_def)
  from parsing_step_follows_read_csv[where read_csv = read_csv_plain
         and response_text = ?bad and e = ParserError and w = initial_world] b
  have 1: "generate_marketing_data_csv read_csv_plain (Inr (Some ?bad)) initial_world
             = show_ui [StError ParserError] initial_world"
    by blast
  from parsing_step_follows_read_csv[where read_csv = read_csv_plain
         and response_text = ?good and marketing_data = ?df and w = initial_world] g
  have "session_marketing_data
          (generate_marketing_data_csv read_csv_plain (Inr (Some ?good)) initial_world)
          = Some ?df"
    by blast
  then have 2: "map_option (map (\<lambda>r. map r names))
        (session_marketing_data
           (generate_marketing_data_csv read_csv_plain (Inr (Some ?good)) initial_world))
     = Some [map Str [''a'',''b'',''c'',''d'',''e'',''f'',''g'',''h''],
             [Str ''x'', Str ''y'', NaN, NaN, NaN, NaN, NaN, NaN]]"
    by (simp add: names_def field_cell_def na_values_def)
  from parsing_step_follows_read_csv[where read_csv = read_csv_plain
         and response_text = "'' ''" and marketing_data = "[]" and w = initial_world] e
  have 3: "session_marketing_data
        (generate_marketing_data_csv read_csv_plain (Inr (Some '' '')) initial_world)
     = Some []"
    by blast
  from 1 2 3 show ?thesis by simp
qed

subsection \<open>C9: the CSV file\<close>

text \<open>
  C9 says that \<^verbatim>\<open>generated_marketing_data.csv\<close> has 8 columns, no header row and one
  row per idea. \<^verbatim>\<open>to_csv(..., index=False)\<close> leaves \<^verbatim>\<open>header\<close> at its default, true: for
  a reply of one line the file holds two records, the first being the column names.
\<close>

theorem csv_file_has_header:
  "fs (generate_marketing_data_csv read_csv_plain (Inr (Some ''a,b,c,d,e,f,g,h'')) initial_world)
      ''generated_marketing_data.csv''
     = Some (CsvRecords
        [[''meme_template'', ''prompt'', ''company_background'', ''marketing_message'',
          ''call_to_action'', ''target_audience'', ''platform'', ''theme''],
         [''a'',''b'',''c'',''d'',''e'',''f'',''g'',''h'']])"
  by (simp add: generate_marketing_data_csv_def strip_def is_space_def read_csv_plain_def blank_line_def Let_def
        initial_world_def show_ui_def names_def field_cell_def na_values_def to_csv_def)

text \<open>
  C9 as amended: after a successful generation the file holds one header record with
  the 8 column names, then one record of 8 fields per row of the table, in order.
\<close>

theorem csv_file_has_header_and_rows:
  assumes "read_csv (strip response_text) = Inr marketing_data"
  shows "\<exists>rows. fs (generate_marketing_data_csv read_csv (Inr (Some response_text)) w)
                  ''generated_marketing_data.csv''
                = Some (CsvRecords
                    ([''meme_template'', ''prompt'', ''company_background'',
                      ''marketing_message'', ''call_to_action'', ''target_audience'',
                      ''platform'', ''theme''] # rows))
     \<and> rows = map (\<lambda>r. map (\<lambda>c. render (r c)) names) marketing_data
     \<and> length rows = length marketing_data
     \<and> list_all (\<lambda>record. length record = 8) rows"
  using assms
  by (simp add: generate_marketing_data_csv_def show_ui_def to_csv_def names_def Let_def
        list_all_iff)

theorem csv_file_has_header_and_rows_witness:
  "fs (generate_marketing_data_csv read_csv_plain
         (Inr (Some (''a,b,c,d,e,f,g,h'' @ [CHR 0x0A] @ ''x,y''))) initial_world)
      ''generated_marketing_data.csv''
     = Some (CsvRecords
        [[''meme_template'', ''prompt'', ''company_background'', ''marketing_message'',
          ''call_to_action'', ''target_audience'', ''platform'', ''theme''],
         [''a'',''b'',''c'',''d'',''e'',''f'',''g'',''h''],
         [''x'',''y'','''','''','''','''','''','''']])"
proof -
  let ?good = "''a,b,c,d,e,f,g,h'' @ [CHR 0x0A] @ ''x,y''"
  let ?df = "[\<lambda>c. field_cell [''a'',''b'',''c'',''d'',''e'',''f'',''g'',''h''] (column_position c),
              \<lambda>c. field_cell [''x'',''y''] (column_position c)]"
  have g: "read_csv_plain (strip ?good) = Inr ?df"
    by (simp add: strip_def is_space_def read_csv_plain_def blank_line_def Let_def)
  from csv_file_has_header_and_rows[where read_csv = read_csv_plain and response_text = ?good
         and marketing_data = ?df and w = initial_world] g
  show ?thesis by (auto simp: names_def field_cell_def na_values_def)
qed

subsection \<open>C6: the Excel export\<close>

lemma cells_set_cell [simp]:
  "cells (set_cell r c v ws) (r', c') = (if r' = r \<and> c' = c then Some v else cells ws (r', c'))"
  by (simp add: set_cell_def)

lemma images_set_cell [simp]: "images (set_cell r c v ws) = images ws"
  by (simp add: set_cell_def)

lemma title_set_cell [simp]: "title (set_cell r c v ws) = title ws"
  by (simp add: set_cell_def)

lemma write_headers_cells:
  "cells (write_headers col hs ws) (r, c)
     = (if r = 1 \<and> col \<le> c \<and> c < col + length hs then Some (XStr (hs ! (c - col)))
        else cells ws (r, c))"
proof (induction hs arbitrary: col ws r c)
  case Nil
  then show ?case by auto
next
  case (Cons h hs)
  show ?case
  proof (cases "c = col")
    case True
    then show ?thesis by (simp add: Cons.IH)
  next
    case False
    have "col < c \<Longrightarrow> (h # hs) ! (c - col) = hs ! (c - Suc col)"
    proof -
      assume "col < c"
      then have "c - col = Suc (c - Suc col)" by arith
      then show ?thesis by simp
    qed
    with False show ?thesis by (auto simp: Cons.IH)
  qed
qed

lemma write_headers_images [simp]: "images (write_headers col hs ws) = images ws"
  by (induction hs arbitrary: col ws) simp_all

lemma write_headers_title [simp]: "title (write_headers col hs ws) = title ws"
  by (induction hs arbitrary: col ws) simp_all

lemma nine_cases: "1 \<le> c \<Longrightarrow> c \<le> 9 \<Longrightarrow>
  c = 1 \<or> c = 2 \<or> c = 3 \<or> c = 4 \<or> c = 5 \<or> c = 6 \<or> c = 7 \<or> c = 8 \<or> c = (9::nat)"
  by arith

lemma row_cells_nth:
  "row_cells item ! 0 = XInt (row item)"
  "row_cells item ! Suc 0 = XCell (row_fields item Meme_template)"
  "row_cells item ! 2 = XCell (row_fields item Prompt)"
  "row_cells item ! 3 = XCell (row_fields item Company_background)"
  "row_cells item ! 4 = XCell (row_fields item Marketing_message)"
  "row_cells item ! 5 = XCell (row_fields item Call_to_action)"
  "row_cells item ! 6 = XCell (row_fields item Target_audience)"
  "row_cells item ! 7 = XCell (row_fields item Platform)"
  "row_cells item ! 8 = XCell (row_fields item Theme)"
  by (simp_all add: row_cells_def names_def)

lemma write_rows_ok:
  "list_all (\<lambda>a. \<not> isl (XLImage E w (image_path a))) items \<Longrightarrow>
   \<exists>ws'. write_rows E w n items ws = Inr ws'
     \<and> title ws' = title ws
     \<and> images ws' = images ws @ map (\<lambda>(i, a). \<lparr>ref = image_path a, width = 200, height = 200,
                                               anchor = ''J'' @ str_nat i\<rparr>) (enumerate n items)
     \<and> (\<forall>r c. cells ws' (r, c)
           = (if n \<le> r \<and> r < n + length items \<and> 1 \<le> c \<and> c \<le> 9
              then Some (row_cells (items ! (r - n)) ! (c - 1)) else cells ws (r, c)))"
proof (induction items arbitrary: n ws)
  case Nil
  then show ?case by auto
next
  case (Cons item items)
  let ?ws9 = "set_cell n 9 (XCell (row_fields item Theme))
           (set_cell n 8 (XCell (row_fields item Platform))
           (set_cell n 7 (XCell (row_fields item Target_audience))
           (set_cell n 6 (XCell (row_fields item Call_to_action))
           (set_cell n 5 (XCell (row_fields item Marketing_message))
           (set_cell n 4 (XCell (row_fields item Company_background))
           (set_cell n 3 (XCell (row_fields item Prompt))
           (set_cell n 2 (XCell (row_fields item Meme_template))
           (set_cell n 1 (XInt (row item)) ws))))))))"
  from Cons.prems obtain img where img: "XLImage E w (image_path item) = Inr img"
    by (cases "XLImage E w (image_path item)") auto
  then have ref: "ref img = image_path item"
    by (auto simp: XLImage_def split: option.splits file_content.splits)
  let ?ws10 = "?ws9\<lparr>images := images ?ws9 @
                  [img\<lparr>width := 200, height := 200, anchor := ''J'' @ str_nat n\<rparr>]\<rparr>"
  have step: "write_rows E w n (item # items) ws = write_rows E w (Suc n) items ?ws10"
    using img by (simp add: Let_def)
  from Cons.prems have "list_all (\<lambda>a. \<not> isl (XLImage E w (image_path a))) items" by simp
  from Cons.IH[OF this, of "Suc n" ?ws10] obtain ws' where
    r: "write_rows E w (Suc n) items ?ws10 = Inr ws'"
    and t: "title ws' = title ?ws10"
    and i: "images ws' = images ?ws10 @ map (\<lambda>(i, a). \<lparr>ref = image_path a, width = 200,
                 height = 200, anchor = ''J'' @ str_nat i\<rparr>) (enumerate (Suc n) items)"
    and c: "\<And>r c. cells ws' (r, c)
           = (if Suc n \<le> r \<and> r < Suc n + length items \<and> 1 \<le> c \<and> c \<le> 9
              then Some (row_cells (items ! (r - Suc n)) ! (c - 1)) else cells ?ws10 (r, c))"
    by blast
  have img_eq: "img\<lparr>width := 200, height := 200, anchor := ''J'' @ str_nat n\<rparr>
       = \<lparr>ref = image_path item, width = 200, height = 200, anchor = ''J'' @ str_nat n\<rparr>"
    using ref by (cases img) simp
  have c9: "\<And>r c. cells ?ws10 (r, c)
      = (if r = n \<and> 1 \<le> c \<and> c \<le> 9 then Some (row_cells item ! (c - 1)) else cells ws (r, c))"
  proof -
    fix r c
    show "cells ?ws10 (r, c)
      = (if r = n \<and> 1 \<le> c \<and> c \<le> 9 then Some (row_cells item ! (c - 1)) else cells ws (r, c))"
    proof (cases "r = n \<and> 1 \<le> c \<and> c \<le> 9")
      case True
      then have "c = 1 \<or> c = 2 \<or> c = 3 \<or> c = 4 \<or> c = 5 \<or> c = 6 \<or> c = 7 \<or> c = 8 \<or> c = 9"
        using nine_cases by blast
      with True show ?thesis by (elim disjE) (simp_all add: row_cells_nth)
    next
      case False
      then show ?thesis by auto
    qed
  qed
  have cells: "\<forall>r c. cells ws' (r, c)
           = (if n \<le> r \<and> r < n + length (item # items) \<and> 1 \<le> c \<and> c \<le> 9
              then Some (row_cells ((item # items) ! (r - n)) ! (c - 1)) else cells ws (r, c))"
  proof (intro allI)
    fix r c
    show "cells ws' (r, c)
           = (if n \<le> r \<and> r < n + length (item # items) \<and> 1 \<le> c \<and> c \<le> 9
              then Some (row_cells ((item # items) ! (r - n)) ! (c - 1)) else cells ws (r, c))"
    proof (cases "Suc n \<le> r")
      case True
      then have "r - n = Suc (r - Suc n)" by simp
      with True show ?thesis unfolding c c9 by auto
    next
      case False
      then show ?thesis unfolding c c9 by auto
    qed
  qed
  from step r t i cells img_eq show ?case
    by simp
qed


lemma length_row_cells [simp]: "length (row_cells item) = 9"
  by (simp add: row_cells_def names_def)

lemma length_headers [simp]: "length headers = 10"
  by (simp add: headers_def)

text \<open>
  C6: for the k generated artifacts of the session, each of whose files loads as an
  image, the export writes \<^verbatim>\<open>memes_export.xlsx\<close> with the sheet "Memes": row 1 holds the
  10 header names, row i + 2 holds the row index and the 8 fields of the i-th artifact
  (input order), no other cell is written, and the i-th image of the sheet is the
  i-th artifact's file at 200 by 200, anchored at column J of that row. (Where a file
  does not load, \<^verbatim>\<open>XLImage\<close> raises and nothing is exported.)
\<close>

theorem excel_export_layout:
  assumes "session_generated_images w = Some generated_images"
      and "list_all (\<lambda>a. \<not> isl (XLImage E w (image_path a))) generated_images"
  shows "\<exists>ws. export_to_excel E w
                = (None, show_ui [StDownloadExcel ws]
                           (w\<lparr>fs := (fs w)(''memes_export.xlsx'' \<mapsto> Xlsx ws)\<rparr>))
     \<and> title ws = ''Memes''
     \<and> length headers = 10
     \<and> sheet_row ws 1 10 = map (\<lambda>h. Some (XStr h)) headers
     \<and> (\<forall>i < length generated_images.
           sheet_row ws (i + 2) 9
             = map Some (XInt (row (generated_images ! i))
                         # map (\<lambda>c. XCell (row_fields (generated_images ! i) c)) names))
     \<and> (\<forall>r c. cells ws (r, c) \<noteq> None \<longrightarrow>
           (r = 1 \<and> 1 \<le> c \<and> c \<le> 10)
           \<or> (2 \<le> r \<and> r < length generated_images + 2 \<and> 1 \<le> c \<and> c \<le> 9))
     \<and> images ws
         = map (\<lambda>(i, a). \<lparr>ref = image_path a, width = 200, height = 200,
                          anchor = ''J'' @ str_nat i\<rparr>)
             (enumerate 2 generated_images)"
proof -
  let ?ws0 = "write_headers 1 headers \<lparr>title = ''Memes'', cells = Map.empty, images = []\<rparr>"
  from write_rows_ok[OF assms(2), of 2 ?ws0] obtain ws where
    r: "write_rows E w 2 generated_images ?ws0 = Inr ws"
    and t: "title ws = title ?ws0"
    and i: "images ws = images ?ws0 @ map (\<lambda>(i, a). \<lparr>ref = image_path a, width = 200,
                 height = 200, anchor = ''J'' @ str_nat i\<rparr>) (enumerate 2 generated_images)"
    and c: "\<And>r c. cells ws (r, c)
           = (if 2 \<le> r \<and> r < 2 + length generated_images \<and> 1 \<le> c \<and> c \<le> 9
              then Some (row_cells (generated_images ! (r - 2)) ! (c - 1)) else cells ?ws0 (r, c))"
    by blast
  have h: "\<And>r c. cells ?ws0 (r, c)
             = (if r = 1 \<and> 1 \<le> c \<and> c < 11 then Some (XStr (headers ! (c - 1))) else None)"
    by (simp add: write_headers_cells)
  have 1: "export_to_excel E w
                = (None, show_ui [StDownloadExcel ws]
                           (w\<lparr>fs := (fs w)(''memes_export.xlsx'' \<mapsto> Xlsx ws)\<rparr>))"
    using assms(1) r by (simp add: export_to_excel_def export_sheet_def)
  have 2: "title ws = ''Memes''" using t by simp
  have 3: "sheet_row ws 1 10 = map (\<lambda>h. Some (XStr h)) headers"
    by (rule nth_equalityI) (simp_all add: sheet_row_def c write_headers_cells del: upt_Suc)
  have 4: "\<forall>i < length generated_images.
           sheet_row ws (i + 2) 9
             = map Some (XInt (row (generated_images ! i))
                         # map (\<lambda>c. XCell (row_fields (generated_images ! i) c)) names)"
  proof (intro allI impI)
    fix i assume "i < length generated_images"
    then have "sheet_row ws (i + 2) 9 = map Some (row_cells (generated_images ! i))"
      by (intro nth_equalityI) (simp_all add: sheet_row_def c del: upt_Suc)
    then show "sheet_row ws (i + 2) 9
             = map Some (XInt (row (generated_images ! i))
                         # map (\<lambda>c. XCell (row_fields (generated_images ! i) c)) names)"
      by (simp add: row_cells_def)
  qed
  have 5: "\<forall>r c. cells ws (r, c) \<noteq> None \<longrightarrow>
           (r = 1 \<and> 1 \<le> c \<and> c \<le> 10)
           \<or> (2 \<le> r \<and> r < length generated_images + 2 \<and> 1 \<le> c \<and> c \<le> 9)"
    unfolding c h by (auto split: if_splits)
  have 6: "images ws
         = map (\<lambda>(i, a). \<lparr>ref = image_path a, width = 200, height = 200,
                          anchor = ''J'' @ str_nat i\<rparr>)
             (enumerate 2 generated_images)"
    using i by simp
  from 1 2 3 4 5 6 show ?thesis by (intro exI[of _ ws]) simp
qed

theorem excel_export_layout_witness:
  "\<exists>ws. export_to_excel example_env export_world
          = (None, show_ui [StDownloadExcel ws]
                     (export_world\<lparr>fs := (fs export_world)(''memes_export.xlsx'' \<mapsto> Xlsx ws)\<rparr>))
      \<and> sheet_row ws 1 10
          = map (\<lambda>h. Some (XStr h))
              [''Row'', ''Meme Template'', ''Prompt'', ''Company Background'',
               ''Marketing Message'', ''Call to Action'', ''Target Audience'', ''Platform'',
               ''Theme'', ''Image'']
      \<and> map (\<lambda>r. hd (sheet_row ws r 9)) [2, 3, 4] = [Some (XInt 0), Some (XInt 2), Some (XInt 1)]
      \<and> sheet_row ws 5 9 = replicate 9 None
      \<and> images ws
          = [\<lparr>ref = ''meme_0_0.png'', width = 200, height = 200, anchor = ''J2''\<rparr>,
             \<lparr>ref = ''meme_2_0.jpg'', width = 200, height = 200, anchor = ''J3''\<rparr>,
             \<lparr>ref = ''meme_1_0.png'', width = 200, height = 200, anchor = ''J4''\<rparr>]"
proof -
  have s: "session_generated_images export_world = Some example_artifacts"
    by (simp add: export_world_def initial_world_def)
  have l: "list_all (\<lambda>a. \<not> isl (XLImage example_env export_world (image_path a)))
             example_artifacts"
    by (simp add: example_artifacts_def XLImage_def export_world_def initial_world_def
          example_env_def)
  from excel_export_layout[OF s l] obtain ws where
    1: "export_to_excel example_env export_world
          = (None, show_ui [StDownloadExcel ws]
                     (export_world\<lparr>fs := (fs export_world)(''memes_export.xlsx'' \<mapsto> Xlsx ws)\<rparr>))"
    and 2: "sheet_row ws 1 10 = map (\<lambda>h. Some (XStr h)) headers"
    and 3: "\<forall>i < length example_artifacts.
           sheet_row ws (i + 2) 9
             = map Some (XInt (row (example_artifacts ! i))
                         # map (\<lambda>c. XCell (row_fields (example_artifacts ! i) c)) names)"
    and 4: "\<forall>r c. cells ws (r, c) \<noteq> None \<longrightarrow>
           (r = 1 \<and> 1 \<le> c \<and> c \<le> 10)
           \<or> (2 \<le> r \<and> r < length example_artifacts + 2 \<and> 1 \<le> c \<and> c \<le> 9)"
    and 5: "images ws
         = map (\<lambda>(i, a). \<lparr>ref = image_path a, width = 200, height = 200,
                          anchor = ''J'' @ str_nat i\<rparr>)
             (enumerate 2 example_artifacts)"
    by blast
  from 3[rule_format, of 0]
  have r2: "sheet_row ws 2 9 = map Some (XInt 0 # map (\<lambda>c. XCell (Str ''first'')) names)"
    by (simp add: example_artifacts_def eval_nat_numeral)
  from 3[rule_format, of 1]
  have r3: "sheet_row ws 3 9 = map Some (XInt 2 # map (\<lambda>c. XCell NaN) names)"
    by (simp add: example_artifacts_def eval_nat_numeral)
  from 3[rule_format, of 2]
  have r4: "sheet_row ws 4 9 = map Some (XInt 1 # map (\<lambda>c. XCell (Str ''second'')) names)"
    by (simp add: example_artifacts_def eval_nat_numeral)
  have r5: "sheet_row ws 5 9 = replicate 9 None"
  proof -
    have "\<And>c. cells ws (5, c) = None"
      using 4 by (fastforce simp: example_artifacts_def)
    then show ?thesis by (simp add: sheet_row_def numeral_eq_Suc)
  qed
  from 5 have im: "images ws
          = [\<lparr>ref = ''meme_0_0.png'', width = 200, height = 200, anchor = ''J2''\<rparr>,
             \<lparr>ref = ''meme_2_0.jpg'', width = 200, height = 200, anchor = ''J3''\<rparr>,
             \<lparr>ref = ''meme_1_0.png'', width = 200, height = 200, anchor = ''J4''\<rparr>]"
    by (simp add: example_artifacts_def)
  from 1 2 r2 r3 r4 r5 im show ?thesis
    by (intro exI[of _ ws]) (simp add: headers_def)
qed

subsection \<open>C10: one artifact per row, with the first file\<close>

text \<open>The files a streaming call returns do not depend on the world it starts in.\<close>

lemma stream_part_world:
  "forget (stream_part E pfx p (sv, k, w)) = forget (stream_part E pfx p (sv, k, w'))"
  by (simp add: stream_part_def save_binary_file_def Let_def
           split: attr.splits if_splits sum.splits option.splits prod.splits)

lemma stream_parts_world:
  "forget (stream_parts E pfx ps (sv, k, w)) = forget (stream_parts E pfx ps (sv, k, w'))"
proof (induction ps arbitrary: sv k w w')
  case Nil
  then show ?case by simp
next
  case (Cons p ps)
  obtain r1 sv1 k1 w1 where a: "stream_part E pfx p (sv, k, w) = (r1, sv1, k1, w1)"
    by (metis prod_cases4)
  obtain r2 sv2 k2 w2 where b: "stream_part E pfx p (sv, k, w') = (r2, sv2, k2, w2)"
    by (metis prod_cases4)
  from stream_part_world[of E pfx p sv k w w'] a b
  have eq: "r2 = r1" "sv2 = sv1" "k2 = k1" by simp_all
  show ?case
  proof (cases r1)
    case None
    with a b eq Cons.IH[of sv1 k1 w1 w2] show ?thesis by simp
  next
    case (Some e)
    with a b eq show ?thesis by simp
  qed
qed

lemma stream_loop_world:
  "forget (stream_loop E pfx items (sv, k, w)) = forget (stream_loop E pfx items (sv, k, w'))"
proof (induction items arbitrary: sv k w w')
  case Nil
  then show ?case by simp
next
  case (Cons it items)
  show ?case
  proof (cases it)
    case (Raise e)
    then show ?thesis by simp
  next
    case (Chunk c)
    show ?thesis
    proof (cases "chunk_parts c")
      case (Inl e)
      with Chunk show ?thesis by (simp add: Let_def)
    next
      case (Inr opt)
      show ?thesis
      proof (cases opt)
        case None
        with Chunk Inr Cons.IH[of sv k "emit [PrintDot] w" "emit [PrintDot] w'"]
        show ?thesis by (simp add: Let_def)
      next
        case (Some ps)
        obtain r1 sv1 k1 w1 where
          a: "stream_parts E pfx ps (sv, k, emit [PrintDot] w) = (r1, sv1, k1, w1)"
          by (metis prod_cases4)
        obtain r2 sv2 k2 w2 where
          b: "stream_parts E pfx ps (sv, k, emit [PrintDot] w') = (r2, sv2, k2, w2)"
          by (metis prod_cases4)
        from stream_parts_world[of E pfx ps sv k "emit [PrintDot] w" "emit [PrintDot] w'"] a b
        have eq: "r2 = r1" "sv2 = sv1" "k2 = k1" by simp_all
        show ?thesis
        proof (cases r1)
          case None
          with a b eq Chunk Inr Some Cons.IH[of sv1 k1 w1 w2] show ?thesis
            by (simp add: Let_def)
        next
          case (Some e)
          with a b eq Chunk Inr \<open>opt = Some ps\<close> show ?thesis by (simp add: Let_def)
        qed
      qed
    qed
  qed
qed

lemma streaming_files_world:
  "fst (generate_image_streaming E stream p pfx w) = fst (generate_image_streaming E stream p' pfx w')"
proof -
  obtain r1 sv1 k1 w1 where a: "stream_loop E pfx stream ([], 0, started p w) = (r1, sv1, k1, w1)"
    by (metis prod_cases4)
  obtain r2 sv2 k2 w2 where b: "stream_loop E pfx stream ([], 0, started p' w') = (r2, sv2, k2, w2)"
    by (metis prod_cases4)
  from stream_loop_world[of E pfx stream "[]" 0 "started p w" "started p' w'"] a b
  have "r2 = r1" "sv2 = sv1" by simp_all
  with a b show ?thesis
    by (cases r1) (simp_all add: generate_image_streaming_def)
qed

lemma streaming_files_on_disk:
  assumes "generate_image_streaming E stream p pfx w = (saved, w')"
  shows "set saved \<subseteq> dom (fs w') \<and> dom (fs w) \<subseteq> dom (fs w')"
proof -
  obtain r1 sv1 k1 w1 where a: "stream_loop E pfx stream ([], 0, started p w) = (r1, sv1, k1, w1)"
    by (metis prod_cases4)
  from stream_loop_inv[OF a] have "set sv1 \<subseteq> dom (fs w1)" "dom (fs w) \<subseteq> dom (fs w1)"
    by (simp_all add: started_def)
  with a assms show ?thesis
    by (cases r1) (auto simp: generate_image_streaming_def)
qed

lemma fs_st_image [simp]: "fs (st_image E idx path w) = fs w"
  by (simp add: st_image_def show_ui_def split: option.splits file_content.splits)

lemma generate_memes_ok:
  fixes saved :: "nat \<Rightarrow> stream_item list \<Rightarrow> string list"
  assumes sv: "\<And>idx stream. saved idx stream
                 = fst (generate_image_streaming E stream (meme_prompt (df ! idx))
                          (''meme_'' @ str_nat idx) w0)"
  shows "list_all (\<lambda>(idx, stream). idx < length df) selected \<Longrightarrow>
     \<exists>w'. generate_memes E meme_prompt df selected (acc, w)
            = (None,
               acc @ map (\<lambda>(idx, stream). \<lparr>row = idx, image_path = hd (saved idx stream),
                                            row_fields = df ! idx\<rparr>)
                       (filter (\<lambda>(idx, stream). saved idx stream \<noteq> []) selected),
               w')
        \<and> dom (fs w) \<subseteq> dom (fs w')
        \<and> (\<forall>(idx, stream) \<in> set selected. set (saved idx stream) \<subseteq> dom (fs w'))"
proof (induction selected arbitrary: acc w)
  case Nil
  then show ?case by simp
next
  case (Cons sel selected)
  obtain idx stream where sel: "sel = (idx, stream)" by (cases sel)
  with Cons.prems have idx: "idx < length df"
    and rest: "list_all (\<lambda>(idx, stream). idx < length df) selected" by simp_all
  obtain sf w1 where g: "generate_image_streaming E stream (meme_prompt (df ! idx))
                           (''meme_'' @ str_nat idx) w = (sf, w1)"
    by (cases "generate_image_streaming E stream (meme_prompt (df ! idx))
                 (''meme_'' @ str_nat idx) w")
  have sf: "sf = saved idx stream"
    using g streaming_files_world[of E stream "meme_prompt (df ! idx)" "''meme_'' @ str_nat idx" w
            "meme_prompt (df ! idx)" w0]
    by (simp add: sv)
  from streaming_files_on_disk[OF g] have d1: "set sf \<subseteq> dom (fs w1)" "dom (fs w) \<subseteq> dom (fs w1)"
    by simp_all
  show ?case
  proof (cases sf)
    case Nil
    from Cons.IH[OF rest, of acc w1] obtain w' where
      r: "generate_memes E meme_prompt df selected (acc, w1)
            = (None,
               acc @ map (\<lambda>(idx, stream). \<lparr>row = idx, image_path = hd (saved idx stream),
                                            row_fields = df ! idx\<rparr>)
                       (filter (\<lambda>(idx, stream). saved idx stream \<noteq> []) selected),
               w')"
      and d: "dom (fs w1) \<subseteq> dom (fs w')"
      and a: "\<forall>(idx, stream) \<in> set selected. set (saved idx stream) \<subseteq> dom (fs w')"
      by blast
    have e: "generate_memes E meme_prompt df (sel # selected) (acc, w)
            = generate_memes E meme_prompt df selected (acc, w1)"
      using sel idx g Nil by simp
    have c1: "generate_memes E meme_prompt df (sel # selected) (acc, w)
            = (None,
               acc @ map (\<lambda>(idx, stream). \<lparr>row = idx, image_path = hd (saved idx stream),
                                            row_fields = df ! idx\<rparr>)
                       (filter (\<lambda>(idx, stream). saved idx stream \<noteq> []) (sel # selected)),
               w')"
      unfolding e r using sf Nil sel by simp
    have c2: "dom (fs w) \<subseteq> dom (fs w')" using d d1 by blast
    have c3: "\<forall>(idx, stream) \<in> set (sel # selected). set (saved idx stream) \<subseteq> dom (fs w')"
      using a d d1 sf sel by auto
    from c1 c2 c3 show ?thesis by blast
  next
    case (Cons f others)
    let ?acc = "acc @ [\<lparr>row = idx, image_path = f, row_fields = df ! idx\<rparr>]"
    from Cons.IH[OF rest, of ?acc "st_image E idx f w1"] obtain w' where
      r: "generate_memes E meme_prompt df selected (?acc, st_image E idx f w1)
            = (None,
               ?acc @ map (\<lambda>(idx, stream). \<lparr>row = idx, image_path = hd (saved idx stream),
                                            row_fields = df ! idx\<rparr>)
                       (filter (\<lambda>(idx, stream). saved idx stream \<noteq> []) selected),
               w')"
      and d: "dom (fs (st_image E idx f w1)) \<subseteq> dom (fs w')"
      and a: "\<forall>(idx, stream) \<in> set selected. set (saved idx stream) \<subseteq> dom (fs w')"
      by blast
    have e: "generate_memes E meme_prompt df (sel # selected) (acc, w)
            = generate_memes E meme_prompt df selected (?acc, st_image E idx f w1)"
      using sel idx g Cons by simp
    from sf Cons have "saved idx stream = f # others" by simp
    then have hd: "hd (saved idx stream) = f" "saved idx stream \<noteq> []"
      by simp_all
    have c1: "generate_memes E meme_prompt df (sel # selected) (acc, w)
            = (None,
               acc @ map (\<lambda>(idx, stream). \<lparr>row = idx, image_path = hd (saved idx stream),
                                            row_fields = df ! idx\<rparr>)
                       (filter (\<lambda>(idx, stream). saved idx stream \<noteq> []) (sel # selected)),
               w')"
      unfolding e r using hd sel by simp
    have d': "dom (fs w1) \<subseteq> dom (fs w')" using d by simp
    have c2: "dom (fs w) \<subseteq> dom (fs w')" using d' d1 by blast
    have c3: "\<forall>(idx, stream) \<in> set (sel # selected). set (saved idx stream) \<subseteq> dom (fs w')"
      using a d' d1 sf sel by auto
    from c1 c2 c3 show ?thesis by blast
  qed
qed

text \<open>
  C10: for the selected rows (each within the table), the loop ends without an
  exception and records exactly one artifact for each row whose streaming call
  returns a non-empty list, in selection order, with the first file of that list as
  its image path; every file any of the calls returned, recorded or not, is in the
  file system afterwards.
\<close>

theorem artifact_records_first_file:
  assumes "selected \<noteq> []"
      and "list_all (\<lambda>(idx, stream). idx < length marketing_data) selected"
  shows "\<exists>w'. generate_memes_for_selected E meme_prompt marketing_data selected w = (None, w')
     \<and> session_generated_images w'
         = Some (map (\<lambda>(idx, stream).
                        \<lparr>row = idx,
                         image_path = hd (fst (generate_image_streaming E stream
                                               (meme_prompt (marketing_data ! idx))
                                               (''meme_'' @ str_nat idx) w)),
                         row_fields = marketing_data ! idx\<rparr>)
                   (filter (\<lambda>(idx, stream).
                              fst (generate_image_streaming E stream
                                     (meme_prompt (marketing_data ! idx))
                                     (''meme_'' @ str_nat idx) w) \<noteq> [])
                      selected))
     \<and> (\<forall>(idx, stream) \<in> set selected.
           set (fst (generate_image_streaming E stream (meme_prompt (marketing_data ! idx))
                       (''meme_'' @ str_nat idx) w)) \<subseteq> dom (fs w'))"
proof -
  let ?saved = "\<lambda>idx stream.
     fst (generate_image_streaming E stream (meme_prompt (marketing_data ! idx))
            (''meme_'' @ str_nat idx) w)"
  let ?arts = "map (\<lambda>(idx, stream). \<lparr>row = idx, image_path = hd (?saved idx stream),
                                            row_fields = marketing_data ! idx\<rparr>)
                       (filter (\<lambda>(idx, stream). ?saved idx stream \<noteq> []) selected)"
  have "\<exists>w'. generate_memes E meme_prompt marketing_data selected ([], w)
            = (None, [] @ ?arts, w')
        \<and> dom (fs w) \<subseteq> dom (fs w')
        \<and> (\<forall>(idx, stream) \<in> set selected. set (?saved idx stream) \<subseteq> dom (fs w'))"
    by (rule generate_memes_ok[where saved = ?saved and ?w0.0 = w, OF _ assms(2)]) simp
  then obtain w1 where
    r: "generate_memes E meme_prompt marketing_data selected ([], w) = (None, ?arts, w1)"
    and a: "\<forall>(idx, stream) \<in> set selected. set (?saved idx stream) \<subseteq> dom (fs w1)"
    by auto
  let ?w' = "show_ui [StSuccessMemes (length ?arts)] (w1\<lparr>session_generated_images := Some ?arts\<rparr>)"
  have 1: "generate_memes_for_selected E meme_prompt marketing_data selected w = (None, ?w')"
    using assms(1) r by (simp add: generate_memes_for_selected_def)
  have 2: "session_generated_images ?w' = Some ?arts" by (simp add: show_ui_def)
  have 3: "fs ?w' = fs w1" by (simp add: show_ui_def)
  from 1 2 3 a show ?thesis by (intro exI[of _ ?w']) simp
qed

theorem artifact_records_first_file_witness:
  "\<exists>w'. generate_memes_for_selected example_env (\<lambda>r. ''draw a meme'') example_frame
          [(0, example_stream), (2, [Chunk (chunk_of [text_part ''sorry''])])] initial_world
          = (None, w')
      \<and> map_option (map (\<lambda>a. (row a, image_path a))) (session_generated_images w')
          = Some [(0, ''meme_0_0.jpg'')]
      \<and> ''meme_0_1.png'' \<in> dom (fs w')"
proof -
  let ?sel = "[(0, example_stream), (2, [Chunk (chunk_of [text_part ''sorry''])])]"
  have a: "fst (generate_image_streaming example_env example_stream ''draw a meme''
                  (''meme_'' @ str_nat 0) initial_world) = [''meme_0_0.jpg'', ''meme_0_1.png'']"
    by (simp add: generate_image_streaming_def example_stream_def chunk_parts_def chunk_of_def
          stream_part_def text_part_def image_part_def extension_of_def example_env_def
          or_png_def save_binary_file_def stream_name_def Let_def)
  have b: "fst (generate_image_streaming example_env [Chunk (chunk_of [text_part ''sorry''])]
                  ''draw a meme'' (''meme_'' @ str_nat 2) initial_world) = []"
    by (simp add: generate_image_streaming_def chunk_parts_def chunk_of_def
          stream_part_def text_part_def Let_def)
  have h1: "?sel \<noteq> []" by simp
  have h2: "list_all (\<lambda>(idx, stream). idx < length example_frame) ?sel"
    by (simp add: example_frame_def)
  from artifact_records_first_file[OF h1 h2, of example_env "\<lambda>r. ''draw a meme''" initial_world]
  show ?thesis using a b by (auto simp: example_frame_def)
qed

end
